theory Spec2Isabelle
  imports Main "HOL-Library.Sublist"
begin

section \<open>Strings\<close>

text \<open>
  A Go string is modelled as the list of its characters: one \<^typ>\<open>char\<close> per rune.
  \<open>strings.Split\<close> is only ever called with a one-character separator in
  \<open>registryprovider.go\<close>, so the separator is a \<^typ>\<open>char\<close>.
  \<open>strings.Split("", ";")\<close> is the one-element slice holding the empty string.
\<close>

definition newline :: char where
  "newline = CHR 0x0A"

fun strings_Split :: "string \<Rightarrow> char \<Rightarrow> string list" where
  "strings_Split [] sep = [[]]"
| "strings_Split (c # cs) sep =
     (if c = sep then [] # strings_Split cs sep
      else (case strings_Split cs sep of
              [] \<Rightarrow> [[c]]
            | p # ps \<Rightarrow> (c # p) # ps))"

definition strings_HasPrefix :: "string \<Rightarrow> string \<Rightarrow> bool" where
  "strings_HasPrefix s p = prefix p s"

section \<open>The fragment of package regexp that the two matchers use\<close>

text \<open>
  The two patterns of \<open>registryprovider.go\<close> are sequences of literal characters, the
  unescaped dot (any character but newline) and the group \<open>(.*)\<close>. Go's regexp matches
  leftmost-first: the match starts as early as possible and, among the matches starting
  there, it is the one a backtracking search finds first; a greedy star prefers to take
  one more character. Neither pattern is anchored.
\<close>

datatype inst = Lit char | AnyCharNotNL | CapAnyStar

fun MustCompile :: "string \<Rightarrow> inst list" where
  "MustCompile [] = []"
| "MustCompile (c # p) =
     (if c = CHR ''('' \<and> take 3 p = ''.*)'' then CapAnyStar # MustCompile (drop 3 p)
      else if c = CHR ''.'' then AnyCharNotNL # MustCompile p
      else Lit c # MustCompile p)"

text \<open>
  \<open>backtrack re s\<close> matches \<open>re\<close> at the start of \<open>s\<close>: the texts of the groups, in order,
  and the input left after the match.
\<close>

fun backtrack :: "inst list \<Rightarrow> string \<Rightarrow> (string list \<times> string) option" where
  "backtrack [] s = Some ([], s)"
| "backtrack (Lit c # re) [] = None"
| "backtrack (Lit c # re) (x # xs) = (if x = c then backtrack re xs else None)"
| "backtrack (AnyCharNotNL # re) [] = None"
| "backtrack (AnyCharNotNL # re) (x # xs) = (if x = newline then None else backtrack re xs)"
| "backtrack (CapAnyStar # re) [] =
     (case backtrack re [] of
        None \<Rightarrow> None
      | Some (caps, rest) \<Rightarrow> Some ([] # caps, rest))"
| "backtrack (CapAnyStar # re) (x # xs) =
     (case (if x = newline then None else backtrack (CapAnyStar # re) xs) of
        Some (g # caps, rest) \<Rightarrow> Some ((x # g) # caps, rest)
      | _ \<Rightarrow>
        (case backtrack re (x # xs) of
           None \<Rightarrow> None
         | Some (caps, rest) \<Rightarrow> Some ([] # caps, rest)))"

text \<open>
  \<open>FindStringSubmatch\<close> returns the text of the leftmost match followed by the texts of
  its groups, and nil (the empty list) when nothing matches. \<open>MatchString\<close> reports
  whether the string contains a match.
\<close>

fun FindStringSubmatch :: "inst list \<Rightarrow> string \<Rightarrow> string list" where
  "FindStringSubmatch re [] =
     (case backtrack re [] of
        None \<Rightarrow> []
      | Some (caps, rest) \<Rightarrow> [] # caps)"
| "FindStringSubmatch re (x # xs) =
     (case backtrack re (x # xs) of
        None \<Rightarrow> FindStringSubmatch re xs
      | Some (caps, rest) \<Rightarrow> take (Suc (length xs) - length rest) (x # xs) # caps)"

fun MatchString :: "inst list \<Rightarrow> string \<Rightarrow> bool" where
  "MatchString re [] = (backtrack re [] \<noteq> None)"
| "MatchString re (x # xs) = (backtrack re (x # xs) \<noteq> None \<or> MatchString re xs)"

section \<open>Type classifier\<close>

definition TemplateRegistryMatcher :: "inst list" where
  "TemplateRegistryMatcher = MustCompile ''github.com/(.*)/(.*)/(.*)/(.*):(.*)''"

definition PackageRegistryMatcher :: "inst list" where
  "PackageRegistryMatcher = MustCompile ''github.com/(.*)/(.*)/(.*)''"

definition IsGithubShortType :: "string \<Rightarrow> bool" where
  "IsGithubShortType t = MatchString TemplateRegistryMatcher t"

definition IsGithubShortPackageType :: "string \<Rightarrow> bool" where
  "IsGithubShortPackageType t = MatchString PackageRegistryMatcher t"

section \<open>Errors, panics and results\<close>

text \<open>
  A Go \<open>error\<close> is modelled by its message. A call that returns \<open>(T, error)\<close> with a
  nilable \<open>T\<close> is a value of \<open>error + T option\<close>: every caller in this file tests
  \<open>err != nil\<close> first and drops the other component then, and \<open>None\<close> is the nil
  pointer or nil interface returned together with a nil error. A function of this file
  returns normally, returns an error, or panics.
\<close>

datatype error = Error string

fun error_msg :: "error \<Rightarrow> string" where
  "error_msg (Error m) = m"

datatype panic = PanicError error | NilDereference

datatype 'a result = Return 'a | Fail error | Panic panic

section \<open>Registry records and the Registry interface\<close>

record common_Registry =
  Name :: string
  URL :: string
  Type :: string
  Format :: string

text \<open>
  The constants of package \<open>common\<close> are not in \<open>registryprovider.go\<close>; the functions
  that read them take them as a parameter.
\<close>

record common_constants =
  GithubRegistryType :: string
  VersionedRegistry :: string
  UnversionedRegistry :: string
  CollectionRegistry :: string
  OneLevelRegistry :: string

text \<open>
  The \<open>Registry\<close> interface, as far as the provider uses it: anything that reports a name
  and a short URL. Implementations extend the record.
\<close>

record Registry =
  GetRegistryName :: string
  GetRegistryShortURL :: string

section \<open>Registry factory\<close>

definition ParseRegistryFormat :: "string \<Rightarrow> string \<Rightarrow> bool" where
  "ParseRegistryFormat rf =
     fold (\<lambda>format result. result(format := True)) (strings_Split rf (CHR '';'')) (\<lambda>_. False)"

text \<open>
  \<open>NewGithubPackageRegistry\<close> and \<open>NewGithubTemplateRegistry\<close> are defined elsewhere in
  package \<open>registry\<close>; \<open>GetGithubRegistry\<close> returns what they return.
\<close>

definition GetGithubRegistry ::
  "common_constants \<Rightarrow> (string \<Rightarrow> string \<Rightarrow> error + 'r option) \<Rightarrow>
   (string \<Rightarrow> string \<Rightarrow> error + 'r option) \<Rightarrow> common_Registry \<Rightarrow> error + 'r option" where
  "GetGithubRegistry common NewGithubPackageRegistry NewGithubTemplateRegistry cr =
     (if Type cr = GithubRegistryType common then
        (let fMap = ParseRegistryFormat (Format cr) in
         if fMap (UnversionedRegistry common) \<and> fMap (OneLevelRegistry common)
         then NewGithubPackageRegistry (Name cr) (URL cr)
         else if fMap (VersionedRegistry common) \<and> fMap (CollectionRegistry common)
         then NewGithubTemplateRegistry (Name cr) (URL cr)
         else Inl (Error (''unknown registry format: '' @ Format cr)))
      else Inl (Error (''unknown registry type: '' @ Type cr)))"

section \<open>Registry provider\<close>

text \<open>
  The methods of \<open>registryProvider\<close> have value receivers: each call works on a copy of
  the struct, and the copies share the map \<open>registries\<close>, which lives on the heap. The
  model keeps the two interface fields in the record \<open>registryProvider\<close> and the map in
  the state. The state also holds the state \<open>world\<close> of whatever the metadata source and
  the factory talk to, and \<open>issued\<close>, the calls made to the metadata source so far, in
  order (a ghost field: the Go struct has no such log).
\<close>

datatype rs_call = CallGet string | CallGetByURL string

record 'w RegistryService =
  Get :: "string \<Rightarrow> 'w \<Rightarrow> (error + common_Registry option) \<times> 'w"
  GetByURL :: "string \<Rightarrow> 'w \<Rightarrow> (error + common_Registry option) \<times> 'w"

record ('z, 'w) registryProvider =
  rs :: "'w RegistryService"
  grp :: "common_Registry \<Rightarrow> 'w \<Rightarrow> (error + 'z Registry_scheme option) \<times> 'w"

record ('z, 'w) state =
  registries :: "string \<rightharpoonup> 'z Registry_scheme"
  world :: 'w
  issued :: "rs_call list"

text \<open>
  Modelled from the spec: \<open>util.TrimURLScheme\<close> is not under src/. The spec says that it
  strips the URL scheme, the http or https prefix.
\<close>

definition TrimURLScheme :: "string \<Rightarrow> string" where
  "TrimURLScheme u =
     (if prefix ''https://'' u then drop 8 u
      else if prefix ''http://'' u then drop 7 u
      else u)"

text \<open>
  The loop of \<open>findRegistryByShortURL\<close> ranges over a Go map, whose iteration order is
  not specified and may change from one loop to the next. The order in which one
  execution of the loop visits the keys is the argument \<open>order\<close>; an enumeration of the
  map lists exactly its keys. The parameter \<open>URL\<close> of the two Go functions is written
  \<open>url\<close>, since \<open>URL\<close> is the field of \<open>common_Registry\<close>.
\<close>

fun rangeRegistries ::
  "string \<Rightarrow> (string \<rightharpoonup> 'z Registry_scheme) \<Rightarrow> string list \<Rightarrow> 'z Registry_scheme option" where
  "rangeRegistries trimmed regs [] = None"
| "rangeRegistries trimmed regs (k # ks) =
     (case regs k of
        None \<Rightarrow> rangeRegistries trimmed regs ks
      | Some r \<Rightarrow>
          if strings_HasPrefix trimmed (TrimURLScheme (GetRegistryShortURL r)) then Some r
          else rangeRegistries trimmed regs ks)"

definition findRegistryByShortURL ::
  "(string \<rightharpoonup> 'z Registry_scheme) \<Rightarrow> string list \<Rightarrow> string \<Rightarrow> 'z Registry_scheme option" where
  "findRegistryByShortURL regs order url =
     (let trimmed = TrimURLScheme url in rangeRegistries trimmed regs order)"

definition GetRegistryByShortURL ::
  "('z, 'w) registryProvider \<Rightarrow> string list \<Rightarrow> string \<Rightarrow> ('z, 'w) state \<Rightarrow>
   'z Registry_scheme result \<times> ('z, 'w) state" where
  "GetRegistryByShortURL rp order url st =
     (case findRegistryByShortURL (registries st) order url of
        Some result \<Rightarrow> (Return result, st)
      | None \<Rightarrow>
          (case GetByURL (rs rp) url (world st) of
             (Inl err, w1) \<Rightarrow>
               (Fail err, st\<lparr>world := w1, issued := issued st @ [CallGetByURL url]\<rparr>)
           | (Inr None, w1) \<Rightarrow>
               (Panic NilDereference, st\<lparr>world := w1, issued := issued st @ [CallGetByURL url]\<rparr>)
           | (Inr (Some cr), w1) \<Rightarrow>
               (case grp rp cr w1 of
                  (Inl err, w2) \<Rightarrow>
                    (Fail err, st\<lparr>world := w2, issued := issued st @ [CallGetByURL url]\<rparr>)
                | (Inr None, w2) \<Rightarrow>
                    (Panic NilDereference,
                     st\<lparr>world := w2, issued := issued st @ [CallGetByURL url]\<rparr>)
                | (Inr (Some r), w2) \<Rightarrow>
                    (Return r,
                     st\<lparr>registries := (registries st)(GetRegistryName r \<mapsto> r),
                        world := w2, issued := issued st @ [CallGetByURL url]\<rparr>))))"

definition GetRegistryByName ::
  "('z, 'w) registryProvider \<Rightarrow> string \<Rightarrow> ('z, 'w) state \<Rightarrow>
   'z Registry_scheme result \<times> ('z, 'w) state" where
  "GetRegistryByName rp registryName st =
     (case registries st registryName of
        Some result \<Rightarrow> (Return result, st)
      | None \<Rightarrow>
          (case Get (rs rp) registryName (world st) of
             (Inl err, w1) \<Rightarrow>
               (Fail err, st\<lparr>world := w1, issued := issued st @ [CallGet registryName]\<rparr>)
           | (Inr None, w1) \<Rightarrow>
               (Panic NilDereference,
                st\<lparr>world := w1, issued := issued st @ [CallGet registryName]\<rparr>)
           | (Inr (Some cr), w1) \<Rightarrow>
               (case grp rp cr w1 of
                  (Inl err, w2) \<Rightarrow>
                    (Fail err, st\<lparr>world := w2, issued := issued st @ [CallGet registryName]\<rparr>)
                | (Inr None, w2) \<Rightarrow>
                    (Panic NilDereference,
                     st\<lparr>world := w2, issued := issued st @ [CallGet registryName]\<rparr>)
                | (Inr (Some r), w2) \<Rightarrow>
                    (Return r,
                     st\<lparr>registries := (registries st)(GetRegistryName r \<mapsto> r),
                        world := w2, issued := issued st @ [CallGet registryName]\<rparr>))))"

section \<open>URL resolver\<close>

text \<open>
  What the resolver calls and \<open>registryprovider.go\<close> does not define: \<open>NewType\<close> and the
  \<open>GetDownloadURLs\<close> method of a Registry (package \<open>registry\<close>), \<open>ConvertURLsToStrings\<close>
  and \<open>IsHttpUrl\<close> (package \<open>util\<close>), \<open>url.Parse\<close> and the \<open>String\<close> method of a URL
  (package \<open>net/url\<close>). The resolver takes them as a parameter. Of the
  \<open>RegistryProvider\<close> interface it takes the two methods; a call threads the state \<open>'s\<close>
  of the provider and of the network.
\<close>

record ('r, 'ty, 'u, 's) collaborators =
  NewType :: "string \<Rightarrow> string \<Rightarrow> string \<Rightarrow> error + 'ty"
  Registry_GetDownloadURLs :: "'r \<Rightarrow> 'ty \<Rightarrow> 's \<Rightarrow> (error + 'u list) \<times> 's"
  ConvertURLsToStrings :: "'u list \<Rightarrow> string list"
  IsHttpUrl :: "string \<Rightarrow> bool"
  url_Parse :: "string \<Rightarrow> error + 'u"
  URL_String :: "'u \<Rightarrow> string"

record ('r, 's) RegistryProvider =
  rp_GetRegistryByShortURL :: "string \<Rightarrow> 's \<Rightarrow> (error + 'r option) \<times> 's"
  rp_GetRegistryByName :: "string \<Rightarrow> 's \<Rightarrow> (error + 'r option) \<times> 's"

definition ShortTypeToDownloadURLs ::
  "('r, 'ty, 'u, 's) collaborators \<Rightarrow> ('r, 's) RegistryProvider \<Rightarrow> string \<Rightarrow> 's \<Rightarrow>
   string list result \<times> 's" where
  "ShortTypeToDownloadURLs c rp t s =
     (let m = FindStringSubmatch TemplateRegistryMatcher t in
      if length m \<noteq> 6 then (Fail (Error (''cannot parse short github url: '' @ t)), s)
      else
        (case rp_GetRegistryByShortURL rp t s of
           (Inl err, s1) \<Rightarrow> (Fail err, s1)
         | (Inr None, s1) \<Rightarrow>
             (Panic (PanicError (Error (''cannot get github registry for '' @ t))), s1)
         | (Inr (Some r), s1) \<Rightarrow>
             (case NewType c (m ! 3) (m ! 4) (m ! 5) of
                Inl err \<Rightarrow> (Fail err, s1)
              | Inr tt \<Rightarrow>
                  (case Registry_GetDownloadURLs c r tt s1 of
                     (Inl err, s2) \<Rightarrow> (Fail err, s2)
                   | (Inr urls, s2) \<Rightarrow> (Return (ConvertURLsToStrings c urls), s2)))))"

definition ShortTypeToPackageDownloadURLs ::
  "('r, 'ty, 'u, 's) collaborators \<Rightarrow> ('r, 's) RegistryProvider \<Rightarrow> string \<Rightarrow> 's \<Rightarrow>
   string list result \<times> 's" where
  "ShortTypeToPackageDownloadURLs c rp t s =
     (let m = FindStringSubmatch PackageRegistryMatcher t in
      if length m \<noteq> 4 then (Fail (Error (''Failed to parse short github url: '' @ t)), s)
      else
        (case rp_GetRegistryByShortURL rp t s of
           (Inl err, s1) \<Rightarrow> (Fail err, s1)
         | (Inr ro, s1) \<Rightarrow>
             (case NewType c [] (m ! 3) [] of
                Inl err \<Rightarrow> (Fail err, s1)
              | Inr tt \<Rightarrow>
                  (case ro of
                     None \<Rightarrow> (Panic NilDereference, s1)
                   | Some r \<Rightarrow>
                       (case Registry_GetDownloadURLs c r tt s1 of
                          (Inl err, s2) \<Rightarrow> (Fail err, s2)
                        | (Inr urls, s2) \<Rightarrow> (Return (ConvertURLsToStrings c urls), s2))))))"

definition GetDownloadURLs ::
  "('r, 'ty, 'u, 's) collaborators \<Rightarrow> ('r, 's) RegistryProvider \<Rightarrow> string \<Rightarrow> 's \<Rightarrow>
   string list result \<times> 's" where
  "GetDownloadURLs c rp t s =
     (if IsGithubShortType t then ShortTypeToDownloadURLs c rp t s
      else if IsGithubShortPackageType t then ShortTypeToPackageDownloadURLs c rp t s
      else if IsHttpUrl c t then
        (case url_Parse c t of
           Inl err \<Rightarrow>
             (Fail (Error (''cannot parse download URL '' @ t @ '': '' @ error_msg err)), s)
         | Inr result \<Rightarrow> (Return [URL_String c result], s))
      else (Return [], s))"

section \<open>The short-type grammar, as the specification words it\<close>

text \<open>
  The specification describes the template short form as
  \<open>github.com/owner/repo/qualifier/type:version\<close>: the host literal, then exactly five
  components, with no further component and no text around it. \<open>ShortTypeGrammar\<close>
  follows these words (it is not taken from the code): splitting at the slashes gives
  the host and four parts, and the last part splits at its colon into type and version.
\<close>

definition ShortTypeGrammar :: "string \<Rightarrow> bool" where
  "ShortTypeGrammar s =
     (case strings_Split s (CHR ''/'') of
        [host, owner, repo, qualifier, tv] \<Rightarrow>
          host = ''github.com'' \<and>
          (case strings_Split tv (CHR '':'') of
             [ty, version] \<Rightarrow> True
           | _ \<Rightarrow> False)
      | _ \<Rightarrow> False)"

text \<open>
  In the same way the specification describes the package short form as
  \<open>github.com/owner/repo/type\<close>: the host literal and exactly three components.
\<close>

definition PackageShortTypeGrammar :: "string \<Rightarrow> bool" where
  "PackageShortTypeGrammar s =
     (case strings_Split s (CHR ''/'') of
        [host, owner, repo, ty] \<Rightarrow> host = ''github.com''
      | _ \<Rightarrow> False)"

section \<open>A small instance of the collaborators\<close>

text \<open>
  Modelled from the spec: the constants of package \<open>common\<close>, the two registry
  constructors, the metadata source, \<open>NewType\<close> and the functions of package \<open>util\<close> are
  not under src/. The theorems below take them as parameters; the instance defined here
  serves to run the functions on concrete inputs. It follows the specification where
  the specification speaks: the format tags are written as in its section 3, a registry
  is a package registry or a template registry and reports a name and a short URL, a
  type has a qualifier, a name and a version, and the name under which a record is
  found may differ from the name that its registry reports. The rest is the simplest
  choice: a constructor reports the name and the URL of its record and never fails, a
  URL is its text, and an HTTP(S) URL is a text that starts with the scheme.
\<close>

definition example_constants :: common_constants where
  "example_constants =
     \<lparr>GithubRegistryType = ''github'', VersionedRegistry = ''versioned'',
      UnversionedRegistry = ''unversioned'', CollectionRegistry = ''collection'',
      OneLevelRegistry = ''one-level''\<rparr>"

datatype variant = PackageRegistry | TemplateRegistry

record GithubRegistry = Registry +
  Variant :: variant

definition NewGithubPackageRegistry :: "string \<Rightarrow> string \<Rightarrow> error + GithubRegistry option" where
  "NewGithubPackageRegistry name shortURL =
     Inr (Some \<lparr>GetRegistryName = name, GetRegistryShortURL = shortURL,
                Variant = PackageRegistry\<rparr>)"

definition NewGithubTemplateRegistry :: "string \<Rightarrow> string \<Rightarrow> error + GithubRegistry option" where
  "NewGithubTemplateRegistry name shortURL =
     Inr (Some \<lparr>GetRegistryName = name, GetRegistryShortURL = shortURL,
                Variant = TemplateRegistry\<rparr>)"

text \<open>
  A metadata source with four records; the format of the last one names no
  organisation. The record found under the name \<open>alias\<close> carries the name \<open>charts\<close>.
  The provider is wired as \<open>NewRegistryProvider\<close> wires it when no factory is given: the
  factory is the provider's own \<open>GetGithubRegistry\<close>.
\<close>

definition example_records :: "common_Registry list" where
  "example_records =
     [\<lparr>Name = ''charts'', URL = ''github.com/acme/charts'', Type = ''github'',
       Format = ''unversioned;one-level''\<rparr>,
      \<lparr>Name = ''templates'', URL = ''github.com/kubernetes/application-dm-templates'',
       Type = ''github'', Format = ''versioned;collection''\<rparr>,
      \<lparr>Name = ''ch'', URL = ''github.com/acme/ch'', Type = ''github'',
       Format = ''unversioned;one-level''\<rparr>,
      \<lparr>Name = ''broken'', URL = ''github.com/acme/broken'', Type = ''github'',
       Format = ''versioned''\<rparr>]"

definition example_RegistryService :: "unit RegistryService" where
  "example_RegistryService =
     \<lparr>Get = (\<lambda>name w.
         if name = ''alias'' then (Inr (Some (example_records ! 0)), w)
         else (case find (\<lambda>cr. Name cr = name) example_records of
                 None \<Rightarrow> (Inl (Error (''Failed to find registry named '' @ name)), w)
               | Some cr \<Rightarrow> (Inr (Some cr), w))),
      GetByURL = (\<lambda>url w.
         case find (\<lambda>cr. prefix (TrimURLScheme (URL cr)) (TrimURLScheme url)) example_records of
           None \<Rightarrow> (Inl (Error (''Failed to find registry for url '' @ url)), w)
         | Some cr \<Rightarrow> (Inr (Some cr), w))\<rparr>"

definition example_provider :: "(\<lparr>Variant :: variant\<rparr>, unit) registryProvider" where
  "example_provider =
     \<lparr>rs = example_RegistryService,
      grp = (\<lambda>cr w. (GetGithubRegistry example_constants NewGithubPackageRegistry
                        NewGithubTemplateRegistry cr, w))\<rparr>"

definition empty_state :: "(\<lparr>Variant :: variant\<rparr>, unit) state" where
  "empty_state = \<lparr>registries = Map.empty, world = (), issued = []\<rparr>"

text \<open>
  The cache after the registries \<open>charts\<close> and \<open>ch\<close> have been looked up by name. The
  short URLs of both are prefixes of \<open>github.com/acme/charts\<close>.
\<close>

definition two_matching_state :: "(\<lparr>Variant :: variant\<rparr>, unit) state" where
  "two_matching_state =
     snd (GetRegistryByName example_provider ''ch''
            (snd (GetRegistryByName example_provider ''charts'' empty_state)))"

definition example_collaborators ::
  "(GithubRegistry, string \<times> string \<times> string, string, nat) collaborators" where
  "example_collaborators =
     \<lparr>NewType = (\<lambda>qualifier name version. Inr (qualifier, name, version)),
      Registry_GetDownloadURLs = (\<lambda>r (qualifier, name, version) s.
         (Inr [''https://'' @ GetRegistryShortURL r @ ''/'' @ qualifier @ ''/'' @ name @
               ''/'' @ version], s)),
      ConvertURLsToStrings = (\<lambda>urls. urls),
      IsHttpUrl = (\<lambda>s. prefix ''http://'' s \<or> prefix ''https://'' s),
      url_Parse = (\<lambda>s. Inr s),
      URL_String = (\<lambda>u. u)\<rparr>"

text \<open>
  Two providers behind the \<open>RegistryProvider\<close> interface, whose state counts the
  look-ups: one resolves every short URL to the same template registry, the other
  returns a nil Registry and a nil error.
\<close>

definition example_RegistryProvider :: "(GithubRegistry, nat) RegistryProvider" where
  "example_RegistryProvider =
     \<lparr>rp_GetRegistryByShortURL = (\<lambda>url s.
         (Inr (Some \<lparr>GetRegistryName = ''templates'',
                      GetRegistryShortURL = ''github.com/kubernetes/application-dm-templates'',
                      Variant = TemplateRegistry\<rparr>), Suc s)),
      rp_GetRegistryByName = (\<lambda>name s. (Inl (Error ''not found''), Suc s))\<rparr>"

definition nil_RegistryProvider :: "(GithubRegistry, nat) RegistryProvider" where
  "nil_RegistryProvider =
     \<lparr>rp_GetRegistryByShortURL = (\<lambda>url s. (Inr None, Suc s)),
      rp_GetRegistryByName = (\<lambda>name s. (Inr None, Suc s))\<rparr>"

section \<open>The matcher finds exactly the decompositions of the pattern\<close>

lemma backtrack_Lit_Some:
  "backtrack (Lit c # re) s = Some res \<longleftrightarrow> (\<exists>xs. s = c # xs \<and> backtrack re xs = Some res)"
  by (cases s) auto

lemma backtrack_Any_Some:
  "backtrack (AnyCharNotNL # re) s = Some res \<longleftrightarrow>
     (\<exists>x xs. s = x # xs \<and> x \<noteq> newline \<and> backtrack re xs = Some res)"
  by (cases s) auto

lemma backtrack_Star_caps:
  "backtrack (CapAnyStar # re) s = Some (caps, rest) \<Longrightarrow> caps \<noteq> []"
  by (cases s) (auto split: option.splits list.splits if_splits)

lemma backtrack_Star_sound:
  "backtrack (CapAnyStar # re) s = Some (caps, rest) \<Longrightarrow>
     \<exists>g caps' s'. caps = g # caps' \<and> s = g @ s' \<and> newline \<notin> set g \<and>
        backtrack re s' = Some (caps', rest)"
proof (induction s arbitrary: caps rest)
  case Nil
  then show ?case by (auto split: option.splits)
next
  case (Cons x xs)
  show ?case
  proof (cases "x \<noteq> newline \<and> backtrack (CapAnyStar # re) xs \<noteq> None")
    case True
    then obtain caps1 rest1 where b: "backtrack (CapAnyStar # re) xs = Some (caps1, rest1)"
      by auto
    from backtrack_Star_caps [OF b] obtain g1 caps2 where c1: "caps1 = g1 # caps2"
      by (cases caps1) auto
    from Cons.prems True b c1 have eq: "caps = (x # g1) # caps2" "rest = rest1"
      by auto
    from Cons.IH [OF b] c1 obtain s' where
      "xs = g1 @ s'" "newline \<notin> set g1" "backtrack re s' = Some (caps2, rest1)"
      by auto
    with eq True show ?thesis by auto
  next
    case False
    with Cons.prems have "\<exists>caps'. backtrack re (x # xs) = Some (caps', rest) \<and> caps = [] # caps'"
      by (auto split: option.splits list.splits if_splits)
    then show ?thesis by auto
  qed
qed

lemma backtrack_Star_complete:
  "newline \<notin> set g \<Longrightarrow> backtrack re s' \<noteq> None \<Longrightarrow> backtrack (CapAnyStar # re) (g @ s') \<noteq> None"
proof (induction g)
  case Nil
  then show ?case by (cases s') (auto split: option.splits list.splits)
next
  case (Cons x g)
  then obtain caps rest where b: "backtrack (CapAnyStar # re) (g @ s') = Some (caps, rest)"
    by auto
  from backtrack_Star_caps [OF b] obtain g1 caps2 where "caps = g1 # caps2"
    by (cases caps) auto
  with b Cons.prems show ?case by auto
qed

lemma backtrack_Star_iff:
  "backtrack (CapAnyStar # re) s \<noteq> None \<longleftrightarrow>
     (\<exists>g s'. s = g @ s' \<and> newline \<notin> set g \<and> backtrack re s' \<noteq> None)"
proof
  assume "backtrack (CapAnyStar # re) s \<noteq> None"
  then obtain caps rest where "backtrack (CapAnyStar # re) s = Some (caps, rest)" by auto
  from backtrack_Star_sound [OF this] show "\<exists>g s'. s = g @ s' \<and> newline \<notin> set g \<and> backtrack re s' \<noteq> None"
    by auto
next
  assume "\<exists>g s'. s = g @ s' \<and> newline \<notin> set g \<and> backtrack re s' \<noteq> None"
  then show "backtrack (CapAnyStar # re) s \<noteq> None"
    using backtrack_Star_complete by auto
qed

lemma backtrack_Lit_iff:
  "backtrack (Lit c # re) s \<noteq> None \<longleftrightarrow> (\<exists>xs. s = c # xs \<and> backtrack re xs \<noteq> None)"
  by (cases s) auto

lemma backtrack_Any_iff:
  "backtrack (AnyCharNotNL # re) s \<noteq> None \<longleftrightarrow>
     (\<exists>x xs. s = x # xs \<and> x \<noteq> newline \<and> backtrack re xs \<noteq> None)"
  by (cases s) auto

lemma backtrack_suffix:
  "backtrack re s = Some (caps, rest) \<Longrightarrow> \<exists>m. s = m @ rest"
proof (induction re s arbitrary: caps rest rule: backtrack.induct)
  case (7 re x xs)
  then show ?case
    by (auto split: option.splits list.splits if_splits)
qed (auto split: option.splits list.splits if_splits)

lemma backtrack_groups:
  "backtrack re s = Some (caps, rest) \<Longrightarrow> length caps = length (filter (\<lambda>i. i = CapAnyStar) re)"
  by (induction re s arbitrary: caps rest rule: backtrack.induct)
     (auto split: option.splits list.splits if_splits)

lemma MatchString_iff:
  "MatchString re s \<longleftrightarrow> (\<exists>pre suf. s = pre @ suf \<and> backtrack re suf \<noteq> None)"
proof (induction s)
  case Nil
  then show ?case by simp
next
  case (Cons x xs)
  show ?case
  proof
    assume "MatchString re (x # xs)"
    then consider "backtrack re (x # xs) \<noteq> None" | "MatchString re xs" by auto
    then show "\<exists>pre suf. x # xs = pre @ suf \<and> backtrack re suf \<noteq> None"
    proof cases
      case 1
      then show ?thesis by (metis append_Nil)
    next
      case 2
      with Cons.IH obtain pre suf where "xs = pre @ suf" "backtrack re suf \<noteq> None" by auto
      then show ?thesis by (metis append_Cons)
    qed
  next
    assume "\<exists>pre suf. x # xs = pre @ suf \<and> backtrack re suf \<noteq> None"
    then obtain pre suf where a: "x # xs = pre @ suf" "backtrack re suf \<noteq> None" by auto
    show "MatchString re (x # xs)"
    proof (cases pre)
      case Nil
      with a have "suf = x # xs" by simp
      with a show ?thesis by auto
    next
      case (Cons y ys)
      with a have "xs = ys @ suf" by simp
      with a Cons.IH show ?thesis by auto
    qed
  qed
qed

lemma TemplateRegistryMatcher_code:
  "TemplateRegistryMatcher =
     [Lit CHR ''g'', Lit CHR ''i'', Lit CHR ''t'', Lit CHR ''h'', Lit CHR ''u'', Lit CHR ''b'',
      AnyCharNotNL, Lit CHR ''c'', Lit CHR ''o'', Lit CHR ''m'', Lit CHR ''/'',
      CapAnyStar, Lit CHR ''/'', CapAnyStar, Lit CHR ''/'', CapAnyStar, Lit CHR ''/'',
      CapAnyStar, Lit CHR '':'', CapAnyStar]"
  by (simp add: TemplateRegistryMatcher_def)

lemma backtrack_Star_last [simp]: "backtrack [CapAnyStar] s \<noteq> None"
  using backtrack_Star_complete [of "[]" "[]" s] by simp

lemma backtrack_LitE:
  assumes "backtrack (Lit c # re) s \<noteq> None"
  obtains xs where "s = c # xs" "backtrack re xs \<noteq> None"
  using assms backtrack_Lit_iff by blast

lemma backtrack_AnyE:
  assumes "backtrack (AnyCharNotNL # re) s \<noteq> None"
  obtains x xs where "s = x # xs" "x \<noteq> newline" "backtrack re xs \<noteq> None"
  using assms backtrack_Any_iff by blast

lemma backtrack_StarE:
  assumes "backtrack (CapAnyStar # re) s \<noteq> None"
  obtains g s' where "s = g @ s'" "newline \<notin> set g" "backtrack re s' \<noteq> None"
  using assms backtrack_Star_iff by blast

lemma Template_backtrack_sound:
  assumes "backtrack TemplateRegistryMatcher s \<noteq> None"
  shows "\<exists>x ow rp q n rest. s = ''github'' @ [x] @ ''com/'' @ ow @ ''/'' @ rp @ ''/'' @ q @ ''/'' @ n @ '':'' @ rest
        \<and> x \<noteq> newline \<and> newline \<notin> set ow \<and> newline \<notin> set rp \<and> newline \<notin> set q \<and> newline \<notin> set n"
  using assms unfolding TemplateRegistryMatcher_code
  apply (elim backtrack_LitE backtrack_AnyE backtrack_StarE)
  apply hypsubst
  apply (simp (no_asm_simp))
  apply (intro exI conjI)
  apply (rule refl | assumption)+
  done

lemma Template_backtrack_complete:
  assumes "x \<noteq> newline" "newline \<notin> set ow" "newline \<notin> set rp" "newline \<notin> set q" "newline \<notin> set n"
  shows "backtrack TemplateRegistryMatcher (''github'' @ [x] @ ''com/'' @ ow @ ''/'' @ rp @ ''/'' @ q @ ''/'' @ n @ '':'' @ rest) \<noteq> None"
proof -
  have 5: "backtrack [CapAnyStar] rest \<noteq> None" by simp
  have 4: "backtrack [CapAnyStar, Lit CHR '':'', CapAnyStar] (n @ '':'' @ rest) \<noteq> None"
    by (rule backtrack_Star_complete) (use assms 5 in simp_all)
  have 3: "backtrack [CapAnyStar, Lit CHR ''/'', CapAnyStar, Lit CHR '':'', CapAnyStar]
             (q @ ''/'' @ n @ '':'' @ rest) \<noteq> None"
    by (rule backtrack_Star_complete) (use assms 4 in simp_all)
  have 2: "backtrack [CapAnyStar, Lit CHR ''/'', CapAnyStar, Lit CHR ''/'', CapAnyStar, Lit CHR '':'', CapAnyStar]
             (rp @ ''/'' @ q @ ''/'' @ n @ '':'' @ rest) \<noteq> None"
    by (rule backtrack_Star_complete) (use assms 3 in simp_all)
  have 1: "backtrack [CapAnyStar, Lit CHR ''/'', CapAnyStar, Lit CHR ''/'', CapAnyStar, Lit CHR ''/'', CapAnyStar, Lit CHR '':'', CapAnyStar]
             (ow @ ''/'' @ rp @ ''/'' @ q @ ''/'' @ n @ '':'' @ rest) \<noteq> None"
    by (rule backtrack_Star_complete) (use assms 2 in simp_all)
  show ?thesis
    unfolding TemplateRegistryMatcher_code using assms(1) 1 by simp
qed

lemma IsGithubShortType_iff:
  "IsGithubShortType s \<longleftrightarrow>
     (\<exists>pre x ow rp q n rest.
        s = pre @ ''github'' @ [x] @ ''com/'' @ ow @ ''/'' @ rp @ ''/'' @ q @ ''/'' @ n @ '':'' @ rest
        \<and> x \<noteq> newline \<and> newline \<notin> set ow \<and> newline \<notin> set rp \<and> newline \<notin> set q \<and> newline \<notin> set n)"
proof
  assume "IsGithubShortType s"
  then obtain pre suf where s: "s = pre @ suf" and b: "backtrack TemplateRegistryMatcher suf \<noteq> None"
    unfolding IsGithubShortType_def MatchString_iff by blast
  from Template_backtrack_sound [OF b] s
  show "\<exists>pre x ow rp q n rest.
        s = pre @ ''github'' @ [x] @ ''com/'' @ ow @ ''/'' @ rp @ ''/'' @ q @ ''/'' @ n @ '':'' @ rest
        \<and> x \<noteq> newline \<and> newline \<notin> set ow \<and> newline \<notin> set rp \<and> newline \<notin> set q \<and> newline \<notin> set n"
    by blast
next
  assume "\<exists>pre x ow rp q n rest.
        s = pre @ ''github'' @ [x] @ ''com/'' @ ow @ ''/'' @ rp @ ''/'' @ q @ ''/'' @ n @ '':'' @ rest
        \<and> x \<noteq> newline \<and> newline \<notin> set ow \<and> newline \<notin> set rp \<and> newline \<notin> set q \<and> newline \<notin> set n"
  then obtain pre x ow rp q n rest where
    s: "s = pre @ ''github'' @ [x] @ ''com/'' @ ow @ ''/'' @ rp @ ''/'' @ q @ ''/'' @ n @ '':'' @ rest"
    and c: "x \<noteq> newline" "newline \<notin> set ow" "newline \<notin> set rp" "newline \<notin> set q" "newline \<notin> set n"
    by blast
  from Template_backtrack_complete [OF c] s show "IsGithubShortType s"
    unfolding IsGithubShortType_def MatchString_iff by blast
qed

lemma backtrack_NilE:
  assumes "backtrack [] s = Some (caps, rest)"
  obtains "caps = []" "rest = s"
  using assms by simp

lemma backtrack_Lit_SomeE:
  assumes "backtrack (Lit c # re) s = Some (caps, rest)"
  obtains xs where "s = c # xs" "backtrack re xs = Some (caps, rest)"
  using assms backtrack_Lit_Some by blast

lemma backtrack_Any_SomeE:
  assumes "backtrack (AnyCharNotNL # re) s = Some (caps, rest)"
  obtains x xs where "s = x # xs" "x \<noteq> newline" "backtrack re xs = Some (caps, rest)"
  using assms backtrack_Any_Some by blast

lemma backtrack_Star_SomeE:
  assumes "backtrack (CapAnyStar # re) s = Some (caps, rest)"
  obtains g caps' s' where "caps = g # caps'" "s = g @ s'" "newline \<notin> set g"
    "backtrack re s' = Some (caps', rest)"
  using backtrack_Star_sound [OF assms] by blast

lemma Template_backtrack_Some:
  assumes "backtrack TemplateRegistryMatcher s = Some (caps, rest)"
  shows "\<exists>x ow rp q n v. caps = [ow, rp, q, n, v] \<and>
           s = (''github'' @ [x] @ ''com/'' @ ow @ ''/'' @ rp @ ''/'' @ q @ ''/'' @ n @ '':'' @ v) @ rest \<and>
           x \<noteq> newline \<and> newline \<notin> set ow \<and> newline \<notin> set rp \<and> newline \<notin> set q \<and>
           newline \<notin> set n \<and> newline \<notin> set v"
  using assms unfolding TemplateRegistryMatcher_code
  apply (elim backtrack_Lit_SomeE backtrack_Any_SomeE backtrack_Star_SomeE backtrack_NilE)
  apply hypsubst
  apply (simp (no_asm_simp))
  done

lemma FindStringSubmatch_match:
  "MatchString re s \<Longrightarrow>
     \<exists>pre whole caps rest. s = pre @ whole @ rest \<and>
        backtrack re (whole @ rest) = Some (caps, rest) \<and>
        FindStringSubmatch re s = whole # caps"
proof (induction s)
  case Nil
  then obtain caps rest where b: "backtrack re [] = Some (caps, rest)" by auto
  from backtrack_suffix [OF b] have "rest = []" by simp
  with b show ?case by simp
next
  case (Cons x xs)
  show ?case
  proof (cases "backtrack re (x # xs)")
    case None
    with Cons.prems have "MatchString re xs" by simp
    from Cons.IH [OF this] obtain pre whole caps rest where
      "xs = pre @ whole @ rest" "backtrack re (whole @ rest) = Some (caps, rest)"
      "FindStringSubmatch re xs = whole # caps" by blast
    with None have "x # xs = (x # pre) @ whole @ rest \<and>
        backtrack re (whole @ rest) = Some (caps, rest) \<and>
        FindStringSubmatch re (x # xs) = whole # caps" by simp
    then show ?thesis by blast
  next
    case (Some res)
    obtain caps rest where res: "res = (caps, rest)" by (cases res)
    from backtrack_suffix Some res obtain m where m: "x # xs = m @ rest" by blast
    then have "length (x # xs) = length m + length rest" by (metis length_append)
    then have tk: "take (Suc (length xs) - length rest) (x # xs) = m"
      using m by (metis add_diff_cancel_right' append_eq_conv_conj length_Cons)
    from Some res have "FindStringSubmatch re (x # xs) =
        take (Suc (length xs) - length rest) (x # xs) # caps" by simp
    with tk have "FindStringSubmatch re (x # xs) = m # caps" by simp
    moreover from Some res m have "backtrack re (m @ rest) = Some (caps, rest)" by simp
    moreover from m have "x # xs = [] @ m @ rest" by simp
    ultimately show ?thesis by blast
  qed
qed

lemma Template_FindStringSubmatch:
  assumes "IsGithubShortType t"
  shows "\<exists>pre x ow rp q n v post.
           t = pre @ (''github'' @ [x] @ ''com/'' @ ow @ ''/'' @ rp @ ''/'' @ q @ ''/'' @ n @ '':'' @ v) @ post \<and>
           FindStringSubmatch TemplateRegistryMatcher t =
             [''github'' @ [x] @ ''com/'' @ ow @ ''/'' @ rp @ ''/'' @ q @ ''/'' @ n @ '':'' @ v,
              ow, rp, q, n, v]"
proof -
  from assms FindStringSubmatch_match obtain pre whole caps rest where
    t: "t = pre @ whole @ rest" and
    b: "backtrack TemplateRegistryMatcher (whole @ rest) = Some (caps, rest)" and
    f: "FindStringSubmatch TemplateRegistryMatcher t = whole # caps"
    unfolding IsGithubShortType_def by blast
  from Template_backtrack_Some [OF b] obtain x ow rp q n v where
    caps: "caps = [ow, rp, q, n, v]" and
    w: "whole @ rest = (''github'' @ [x] @ ''com/'' @ ow @ ''/'' @ rp @ ''/'' @ q @ ''/'' @ n @ '':'' @ v) @ rest"
    by blast
  from w have "whole = ''github'' @ [x] @ ''com/'' @ ow @ ''/'' @ rp @ ''/'' @ q @ ''/'' @ n @ '':'' @ v"
    by (simp only: append_same_eq)
  with t f caps show ?thesis by blast
qed

section \<open>The template classifier\<close>

lemma strings_Split_not_Nil: "strings_Split s c \<noteq> []"
  by (induction s) (auto split: list.splits)

lemma strings_Split_join:
  "strings_Split s c = p # ps \<Longrightarrow> s = p @ concat (map ((#) c) ps)"
proof (induction s arbitrary: p ps)
  case Nil
  then show ?case by simp
next
  case (Cons a s)
  obtain p' ps' where sp: "strings_Split s c = p' # ps'"
    using strings_Split_not_Nil [of s c] by (cases "strings_Split s c") auto
  from Cons.IH [OF sp] have s: "s = p' @ concat (map ((#) c) ps')" .
  show ?case
  proof (cases "a = c")
    case True
    with Cons.prems sp have "p = []" "ps = p' # ps'" by auto
    with s True show ?thesis by simp
  next
    case False
    with Cons.prems sp have "p = a # p'" "ps = ps'" by auto
    with s show ?thesis by simp
  qed
qed

lemma ShortTypeGrammar_shape:
  assumes "ShortTypeGrammar s"
  shows "\<exists>ow rp q n v. s = ''github.com/'' @ ow @ ''/'' @ rp @ ''/'' @ q @ ''/'' @ n @ '':'' @ v"
proof -
  from assms obtain host ow rp q tv n v where
    sp: "strings_Split s (CHR ''/'') = [host, ow, rp, q, tv]" and h: "host = ''github.com''" and
    tv: "strings_Split tv (CHR '':'') = [n, v]"
    unfolding ShortTypeGrammar_def by (auto split: list.splits)
  from strings_Split_join [OF sp] strings_Split_join [OF tv] h
  have "s = ''github.com/'' @ ow @ ''/'' @ rp @ ''/'' @ q @ ''/'' @ n @ '':'' @ v" by simp
  then show ?thesis by blast
qed

lemma ShortTypeGrammar_accepted:
  assumes "ShortTypeGrammar s" "newline \<notin> set s"
  shows "IsGithubShortType s"
proof -
  from ShortTypeGrammar_shape [OF assms(1)] obtain ow rp q n v where
    s: "s = ''github.com/'' @ ow @ ''/'' @ rp @ ''/'' @ q @ ''/'' @ n @ '':'' @ v" by blast
  with assms(2) have c: "CHR ''.'' \<noteq> newline" "newline \<notin> set ow" "newline \<notin> set rp"
    "newline \<notin> set q" "newline \<notin> set n"
    by (auto simp: newline_def)
  from s have "s = [] @ ''github'' @ [CHR ''.''] @ ''com/'' @ ow @ ''/'' @ rp @ ''/'' @ q @ ''/'' @ n @ '':'' @ v"
    by simp
  with c show ?thesis unfolding IsGithubShortType_iff by blast
qed

text \<open>
  Claim C3, as amended. \<open>IsGithubShortType\<close> accepts every string of the short-type
  grammar \<open>github.com/owner/repo/qualifier/type:version\<close> that has no line break, but
  not only those. It returns true exactly when the string contains, anywhere, the text
  \<open>github\<close>, one character other than a line break, \<open>com/\<close>, and then four texts
  without line break, the first three each followed by a slash and the fourth by a
  colon. The four texts may be empty and may themselves contain slashes and colons, and
  any text may come before and after.
\<close>
theorem IsGithubShortType_matches:
  "(ShortTypeGrammar s \<and> newline \<notin> set s \<longrightarrow> IsGithubShortType s) \<and>
   (IsGithubShortType s \<longleftrightarrow>
     (\<exists>pre x ow rp q n rest.
        s = pre @ ''github'' @ [x] @ ''com/'' @ ow @ ''/'' @ rp @ ''/'' @ q @ ''/'' @ n @ '':'' @ rest
        \<and> x \<noteq> newline \<and> newline \<notin> set ow \<and> newline \<notin> set rp \<and> newline \<notin> set q \<and> newline \<notin> set n))"
  using ShortTypeGrammar_accepted IsGithubShortType_iff by blast

theorem IsGithubShortType_matches_witness:
  "ShortTypeGrammar ''github.com/kubernetes/application-dm-templates/storage/redis:v1'' \<and>
   newline \<notin> set ''github.com/kubernetes/application-dm-templates/storage/redis:v1'' \<and>
   IsGithubShortType ''github.com/kubernetes/application-dm-templates/storage/redis:v1''"
proof -
  have g: "ShortTypeGrammar ''github.com/kubernetes/application-dm-templates/storage/redis:v1''"
    by (simp add: ShortTypeGrammar_def)
  have n: "newline \<notin> set ''github.com/kubernetes/application-dm-templates/storage/redis:v1''"
    by (simp add: newline_def)
  from IsGithubShortType_matches [of "''github.com/kubernetes/application-dm-templates/storage/redis:v1''"] g n
  show ?thesis by blast
qed

text \<open>
  Claim C3 as stated fails: a string with a URL scheme before the host and a string
  with one component too many are both accepted, and neither is in the grammar.
\<close>

theorem IsGithubShortType_exact_counterexample:
  "IsGithubShortType ''https://github.com/a/b/c/d:e'' \<and>
   \<not> ShortTypeGrammar ''https://github.com/a/b/c/d:e'' \<and>
   IsGithubShortType ''github.com/a/b/c/d/e:f'' \<and>
   \<not> ShortTypeGrammar ''github.com/a/b/c/d/e:f''"
  by (simp add: IsGithubShortType_def TemplateRegistryMatcher_def ShortTypeGrammar_def newline_def)

section \<open>The URL resolver\<close>

lemma FindStringSubmatch_length:
  assumes "MatchString re s"
  shows "length (FindStringSubmatch re s) = Suc (length (filter (\<lambda>i. i = CapAnyStar) re))"
proof -
  from FindStringSubmatch_match [OF assms] obtain whole caps rest where
    "backtrack re (whole @ rest) = Some (caps, rest)" "FindStringSubmatch re s = whole # caps"
    by blast
  with backtrack_groups show ?thesis by fastforce
qed

lemma PackageRegistryMatcher_code:
  "PackageRegistryMatcher =
     [Lit CHR ''g'', Lit CHR ''i'', Lit CHR ''t'', Lit CHR ''h'', Lit CHR ''u'', Lit CHR ''b'',
      AnyCharNotNL, Lit CHR ''c'', Lit CHR ''o'', Lit CHR ''m'', Lit CHR ''/'',
      CapAnyStar, Lit CHR ''/'', CapAnyStar, Lit CHR ''/'', CapAnyStar]"
  by (simp add: PackageRegistryMatcher_def)

lemma Package_FindStringSubmatch_length:
  "IsGithubShortPackageType t \<Longrightarrow> length (FindStringSubmatch PackageRegistryMatcher t) = 4"
  unfolding IsGithubShortPackageType_def
  by (drule FindStringSubmatch_length) (simp add: PackageRegistryMatcher_code)

lemma Package_backtrack_sound:
  assumes "backtrack PackageRegistryMatcher s \<noteq> None"
  shows "\<exists>x owner repo rest.
           s = ''github'' @ [x] @ ''com/'' @ owner @ ''/'' @ repo @ ''/'' @ rest \<and>
           x \<noteq> newline \<and> newline \<notin> set owner \<and> newline \<notin> set repo"
  using assms unfolding PackageRegistryMatcher_code
  apply (elim backtrack_LitE backtrack_AnyE backtrack_StarE)
  apply hypsubst
  apply (simp (no_asm_simp))
  apply (intro exI conjI)
  apply (rule refl | assumption)+
  done

lemma Package_backtrack_complete:
  assumes "x \<noteq> newline" "newline \<notin> set owner" "newline \<notin> set repo"
  shows "backtrack PackageRegistryMatcher
           (''github'' @ [x] @ ''com/'' @ owner @ ''/'' @ repo @ ''/'' @ rest) \<noteq> None"
proof -
  have 3: "backtrack [CapAnyStar] rest \<noteq> None" by simp
  have 2: "backtrack [CapAnyStar, Lit CHR ''/'', CapAnyStar] (repo @ ''/'' @ rest) \<noteq> None"
    by (rule backtrack_Star_complete) (use assms 3 in simp_all)
  have 1: "backtrack [CapAnyStar, Lit CHR ''/'', CapAnyStar, Lit CHR ''/'', CapAnyStar]
             (owner @ ''/'' @ repo @ ''/'' @ rest) \<noteq> None"
    by (rule backtrack_Star_complete) (use assms 2 in simp_all)
  show ?thesis
    unfolding PackageRegistryMatcher_code using assms(1) 1 by simp
qed

lemma IsGithubShortPackageType_iff:
  "IsGithubShortPackageType s \<longleftrightarrow>
     (\<exists>pre x owner repo rest.
        s = pre @ ''github'' @ [x] @ ''com/'' @ owner @ ''/'' @ repo @ ''/'' @ rest \<and>
        x \<noteq> newline \<and> newline \<notin> set owner \<and> newline \<notin> set repo)"
proof
  assume "IsGithubShortPackageType s"
  then obtain pre suf where s: "s = pre @ suf" and b: "backtrack PackageRegistryMatcher suf \<noteq> None"
    unfolding IsGithubShortPackageType_def MatchString_iff by blast
  from Package_backtrack_sound [OF b] s
  show "\<exists>pre x owner repo rest.
        s = pre @ ''github'' @ [x] @ ''com/'' @ owner @ ''/'' @ repo @ ''/'' @ rest \<and>
        x \<noteq> newline \<and> newline \<notin> set owner \<and> newline \<notin> set repo"
    by blast
next
  assume "\<exists>pre x owner repo rest.
        s = pre @ ''github'' @ [x] @ ''com/'' @ owner @ ''/'' @ repo @ ''/'' @ rest \<and>
        x \<noteq> newline \<and> newline \<notin> set owner \<and> newline \<notin> set repo"
  then obtain pre x owner repo rest where
    s: "s = pre @ ''github'' @ [x] @ ''com/'' @ owner @ ''/'' @ repo @ ''/'' @ rest"
    and c: "x \<noteq> newline" "newline \<notin> set owner" "newline \<notin> set repo"
    by blast
  from Package_backtrack_complete [OF c] s show "IsGithubShortPackageType s"
    unfolding IsGithubShortPackageType_def MatchString_iff by blast
qed

lemma template_match_is_package_match:
  assumes "IsGithubShortType s"
  shows "IsGithubShortPackageType s"
proof -
  from assms obtain pre x owner repo q n rest where
    s: "s = pre @ ''github'' @ [x] @ ''com/'' @ owner @ ''/'' @ repo @ ''/'' @ q @ ''/'' @ n @ '':'' @ rest"
    and c: "x \<noteq> newline" "newline \<notin> set owner" "newline \<notin> set repo"
    unfolding IsGithubShortType_iff by blast
  from s have "s = pre @ ''github'' @ [x] @ ''com/'' @ owner @ ''/'' @ repo @ ''/'' @
      (q @ ''/'' @ n @ '':'' @ rest)" by simp
  with c show ?thesis unfolding IsGithubShortPackageType_iff by blast
qed

lemma no_pattern_occurrence:
  assumes "\<not> (\<exists>pre x owner repo rest.
        t = pre @ ''github'' @ [x] @ ''com/'' @ owner @ ''/'' @ repo @ ''/'' @ rest \<and>
        x \<noteq> newline \<and> newline \<notin> set owner \<and> newline \<notin> set repo)"
  shows "\<not> IsGithubShortType t \<and> \<not> IsGithubShortPackageType t"
  using assms template_match_is_package_match IsGithubShortPackageType_iff by blast

text \<open>
  Claim C4. When \<open>typeString\<close> matches the template short form, \<open>GetDownloadURLs\<close> is
  \<open>ShortTypeToDownloadURLs\<close>, whatever the package matcher would say: the match has
  six entries, so the length test passes; the provider is asked for the registry of the
  whole string; the type is built from the third, fourth and fifth group (qualifier,
  name, version), which are parts of the string in this order; the registry's
  \<open>GetDownloadURLs\<close> is called with it and its URLs are converted to strings.
\<close>
theorem GetDownloadURLs_template_path:
  assumes "IsGithubShortType t"
  shows "\<exists>pre x owner repo qualifier name version post.
     t = pre @ (''github'' @ [x] @ ''com/'' @ owner @ ''/'' @ repo @ ''/'' @ qualifier @ ''/'' @
                name @ '':'' @ version) @ post \<and>
     FindStringSubmatch TemplateRegistryMatcher t =
       [''github'' @ [x] @ ''com/'' @ owner @ ''/'' @ repo @ ''/'' @ qualifier @ ''/'' @
        name @ '':'' @ version, owner, repo, qualifier, name, version] \<and>
     GetDownloadURLs c rp t s = ShortTypeToDownloadURLs c rp t s \<and>
     GetDownloadURLs c rp t s =
       (case rp_GetRegistryByShortURL rp t s of
          (Inl err, s1) \<Rightarrow> (Fail err, s1)
        | (Inr None, s1) \<Rightarrow>
            (Panic (PanicError (Error (''cannot get github registry for '' @ t))), s1)
        | (Inr (Some r), s1) \<Rightarrow>
            (case NewType c qualifier name version of
               Inl err \<Rightarrow> (Fail err, s1)
             | Inr tt \<Rightarrow>
                 (case Registry_GetDownloadURLs c r tt s1 of
                    (Inl err, s2) \<Rightarrow> (Fail err, s2)
                  | (Inr urls, s2) \<Rightarrow> (Return (ConvertURLsToStrings c urls), s2))))"
proof -
  from Template_FindStringSubmatch [OF assms] obtain pre x owner repo qualifier name version post
    where t: "t = pre @ (''github'' @ [x] @ ''com/'' @ owner @ ''/'' @ repo @ ''/'' @ qualifier @
                ''/'' @ name @ '':'' @ version) @ post"
      and m: "FindStringSubmatch TemplateRegistryMatcher t =
       [''github'' @ [x] @ ''com/'' @ owner @ ''/'' @ repo @ ''/'' @ qualifier @ ''/'' @
        name @ '':'' @ version, owner, repo, qualifier, name, version]"
    by blast
  have d: "GetDownloadURLs c rp t s = ShortTypeToDownloadURLs c rp t s"
    using assms by (simp add: GetDownloadURLs_def)
  have e: "ShortTypeToDownloadURLs c rp t s =
       (case rp_GetRegistryByShortURL rp t s of
          (Inl err, s1) \<Rightarrow> (Fail err, s1)
        | (Inr None, s1) \<Rightarrow>
            (Panic (PanicError (Error (''cannot get github registry for '' @ t))), s1)
        | (Inr (Some r), s1) \<Rightarrow>
            (case NewType c qualifier name version of
               Inl err \<Rightarrow> (Fail err, s1)
             | Inr tt \<Rightarrow>
                 (case Registry_GetDownloadURLs c r tt s1 of
                    (Inl err, s2) \<Rightarrow> (Fail err, s2)
                  | (Inr urls, s2) \<Rightarrow> (Return (ConvertURLsToStrings c urls), s2))))"
    unfolding ShortTypeToDownloadURLs_def
    by (simp only: Let_def m) (simp split: prod.splits sum.splits option.splits)
  from t m d e show ?thesis by (metis (no_types, lifting))
qed

theorem GetDownloadURLs_template_path_witness:
  "IsGithubShortType ''github.com/kubernetes/application-dm-templates/storage/redis:v1'' \<and>
   FindStringSubmatch TemplateRegistryMatcher
       ''github.com/kubernetes/application-dm-templates/storage/redis:v1'' =
     [''github.com/kubernetes/application-dm-templates/storage/redis:v1'',
      ''kubernetes'', ''application-dm-templates'', ''storage'', ''redis'', ''v1''] \<and>
   GetDownloadURLs example_collaborators example_RegistryProvider
       ''github.com/kubernetes/application-dm-templates/storage/redis:v1'' 0 =
     (Return [''https://github.com/kubernetes/application-dm-templates/storage/redis/v1''], 1)"
proof -
  let ?t = "''github.com/kubernetes/application-dm-templates/storage/redis:v1''"
  have h: "IsGithubShortType ?t"
    by (simp add: IsGithubShortType_def TemplateRegistryMatcher_def newline_def)
  have f: "FindStringSubmatch TemplateRegistryMatcher ?t =
     [?t, ''kubernetes'', ''application-dm-templates'', ''storage'', ''redis'', ''v1'']"
    by (simp add: TemplateRegistryMatcher_def newline_def)
  from GetDownloadURLs_template_path [OF h, of example_collaborators example_RegistryProvider 0]
  obtain x owner repo qualifier name version where
    m: "FindStringSubmatch TemplateRegistryMatcher ?t =
       [''github'' @ [x] @ ''com/'' @ owner @ ''/'' @ repo @ ''/'' @ qualifier @ ''/'' @
        name @ '':'' @ version, owner, repo, qualifier, name, version]" and
    g: "GetDownloadURLs example_collaborators example_RegistryProvider ?t 0 =
       (case rp_GetRegistryByShortURL example_RegistryProvider ?t 0 of
          (Inl err, s1) \<Rightarrow> (Fail err, s1)
        | (Inr None, s1) \<Rightarrow>
            (Panic (PanicError (Error (''cannot get github registry for '' @ ?t))), s1)
        | (Inr (Some r), s1) \<Rightarrow>
            (case NewType example_collaborators qualifier name version of
               Inl err \<Rightarrow> (Fail err, s1)
             | Inr tt \<Rightarrow>
                 (case Registry_GetDownloadURLs example_collaborators r tt s1 of
                    (Inl err, s2) \<Rightarrow> (Fail err, s2)
                  | (Inr urls, s2) \<Rightarrow> (Return (ConvertURLsToStrings example_collaborators urls), s2))))"
    by blast
  from m f have q: "qualifier = ''storage''" "name = ''redis''" "version = ''v1''" by simp_all
  have "GetDownloadURLs example_collaborators example_RegistryProvider ?t 0 =
     (Return [''https://github.com/kubernetes/application-dm-templates/storage/redis/v1''], 1)"
    unfolding g q by (simp add: example_collaborators_def example_RegistryProvider_def)
  with h f show ?thesis by simp
qed

text \<open>
  Claim C5, as amended. Let the string contain no match of the package pattern: nowhere
  in it stands \<open>github\<close>, one character other than a line break, \<open>com/\<close> and then,
  before the next line break, two further slashes. Then neither \<open>IsGithubShortType\<close>
  nor \<open>IsGithubShortPackageType\<close> holds, and when \<open>IsHttpUrl\<close> accepts the string,
  \<open>GetDownloadURLs\<close> parses it as a URL and returns the parsed URL, written back as a
  string, as the only element; when parsing fails it returns the error
  \<open>cannot parse download URL\<close>. The provider is not called: the state is unchanged and
  the result is the same for every provider.
\<close>

theorem GetDownloadURLs_http_url:
  assumes "\<not> (\<exists>pre x owner repo rest.
        t = pre @ ''github'' @ [x] @ ''com/'' @ owner @ ''/'' @ repo @ ''/'' @ rest \<and>
        x \<noteq> newline \<and> newline \<notin> set owner \<and> newline \<notin> set repo)"
      and "IsHttpUrl c t"
  shows "\<not> IsGithubShortType t \<and> \<not> IsGithubShortPackageType t \<and>
         GetDownloadURLs c rp t s =
           (case url_Parse c t of
              Inl err \<Rightarrow>
                (Fail (Error (''cannot parse download URL '' @ t @ '': '' @ error_msg err)), s)
            | Inr u \<Rightarrow> (Return [URL_String c u], s)) \<and>
         GetDownloadURLs c rp t s = GetDownloadURLs c rp' t s"
proof -
  from no_pattern_occurrence [OF assms(1)]
  have n: "\<not> IsGithubShortType t" "\<not> IsGithubShortPackageType t" by simp_all
  with assms(2) show ?thesis by (simp add: GetDownloadURLs_def)
qed

theorem GetDownloadURLs_http_url_witness:
  "IsHttpUrl example_collaborators ''https://example.com/blob/file.yaml'' \<and>
   \<not> IsGithubShortType ''https://example.com/blob/file.yaml'' \<and>
   \<not> IsGithubShortPackageType ''https://example.com/blob/file.yaml'' \<and>
   GetDownloadURLs example_collaborators example_RegistryProvider
       ''https://example.com/blob/file.yaml'' 0 =
     (Return [''https://example.com/blob/file.yaml''], 0)"
proof -
  let ?t = "''https://example.com/blob/file.yaml''"
  have b: "\<not> IsGithubShortPackageType ?t"
    by (simp add: IsGithubShortPackageType_def PackageRegistryMatcher_def newline_def)
  then have a: "\<not> (\<exists>pre x owner repo rest.
        ?t = pre @ ''github'' @ [x] @ ''com/'' @ owner @ ''/'' @ repo @ ''/'' @ rest \<and>
        x \<noteq> newline \<and> newline \<notin> set owner \<and> newline \<notin> set repo)"
    unfolding IsGithubShortPackageType_iff .
  have h: "IsHttpUrl example_collaborators ?t"
    by (simp add: example_collaborators_def)
  have p: "url_Parse example_collaborators ?t = Inr ?t" "URL_String example_collaborators ?t = ?t"
    by (simp_all add: example_collaborators_def)
  from GetDownloadURLs_http_url [OF a h, of example_RegistryProvider 0]
  have "\<not> IsGithubShortType ?t \<and> \<not> IsGithubShortPackageType ?t \<and>
    GetDownloadURLs example_collaborators example_RegistryProvider ?t 0 = (Return [?t], 0)"
    by (simp only: p sum.case) simp
  with h show ?thesis by simp
qed

text \<open>
  Claim C5 as stated fails: \<open>https://github.com/a/b/c\<close> is an HTTP(S) URL and is in
  neither short-form grammar, but the unanchored package pattern finds a match in it,
  so the provider is asked for a registry and the URLs of that registry are returned.
\<close>

theorem GetDownloadURLs_http_url_counterexample:
  "IsHttpUrl example_collaborators ''https://github.com/a/b/c'' \<and>
   \<not> ShortTypeGrammar ''https://github.com/a/b/c'' \<and>
   \<not> PackageShortTypeGrammar ''https://github.com/a/b/c'' \<and>
   GetDownloadURLs example_collaborators example_RegistryProvider ''https://github.com/a/b/c'' 0 =
     (Return [''https://github.com/kubernetes/application-dm-templates//c/''], 1) \<and>
   GetDownloadURLs example_collaborators example_RegistryProvider ''https://github.com/a/b/c'' 0 \<noteq>
     (Return [''https://github.com/a/b/c''], 0)"
proof -
  let ?t = "''https://github.com/a/b/c''"
  have h: "IsHttpUrl example_collaborators ?t" by (simp add: example_collaborators_def)
  have g: "\<not> ShortTypeGrammar ?t" "\<not> PackageShortTypeGrammar ?t"
    by (simp_all add: ShortTypeGrammar_def PackageShortTypeGrammar_def)
  have a: "\<not> IsGithubShortType ?t"
    by (simp add: IsGithubShortType_def TemplateRegistryMatcher_def newline_def)
  have b: "IsGithubShortPackageType ?t"
    by (simp add: IsGithubShortPackageType_def PackageRegistryMatcher_def newline_def)
  have m: "FindStringSubmatch PackageRegistryMatcher ?t = [''github.com/a/b/c'', ''a'', ''b'', ''c'']"
    by (simp add: PackageRegistryMatcher_def newline_def)
  have r: "GetDownloadURLs example_collaborators example_RegistryProvider ?t 0 =
     (Return [''https://github.com/kubernetes/application-dm-templates//c/''], 1)"
  proof -
    have "GetDownloadURLs example_collaborators example_RegistryProvider ?t 0 =
        ShortTypeToPackageDownloadURLs example_collaborators example_RegistryProvider ?t 0"
      by (simp only: GetDownloadURLs_def a b if_False if_True)
    also have "\<dots> = (Return [''https://github.com/kubernetes/application-dm-templates//c/''], 1)"
      unfolding ShortTypeToPackageDownloadURLs_def m Let_def
      by (simp add: example_collaborators_def example_RegistryProvider_def)
    finally show ?thesis .
  qed
  with h g show ?thesis by simp
qed

text \<open>
  Claim C6, as amended. Let the string contain no match of the package pattern, as in
  claim C5. Then neither \<open>IsGithubShortType\<close> nor \<open>IsGithubShortPackageType\<close> holds, and
  when \<open>IsHttpUrl\<close> rejects the string, \<open>GetDownloadURLs\<close> returns the empty list and no
  error, and leaves the state unchanged.
\<close>

theorem GetDownloadURLs_primitive:
  assumes "\<not> (\<exists>pre x owner repo rest.
        t = pre @ ''github'' @ [x] @ ''com/'' @ owner @ ''/'' @ repo @ ''/'' @ rest \<and>
        x \<noteq> newline \<and> newline \<notin> set owner \<and> newline \<notin> set repo)"
      and "\<not> IsHttpUrl c t"
  shows "\<not> IsGithubShortType t \<and> \<not> IsGithubShortPackageType t \<and>
         GetDownloadURLs c rp t s = (Return [], s)"
proof -
  from no_pattern_occurrence [OF assms(1)]
  have n: "\<not> IsGithubShortType t" "\<not> IsGithubShortPackageType t" by simp_all
  with assms(2) show ?thesis by (simp add: GetDownloadURLs_def)
qed

theorem GetDownloadURLs_primitive_witness:
  "\<not> IsHttpUrl example_collaborators ''string'' \<and>
   \<not> IsGithubShortType ''string'' \<and> \<not> IsGithubShortPackageType ''string'' \<and>
   GetDownloadURLs example_collaborators example_RegistryProvider ''string'' 0 = (Return [], 0)"
proof -
  have b: "\<not> IsGithubShortPackageType ''string''"
    by (simp add: IsGithubShortPackageType_def PackageRegistryMatcher_def newline_def)
  then have a: "\<not> (\<exists>pre x owner repo rest.
        ''string'' = pre @ ''github'' @ [x] @ ''com/'' @ owner @ ''/'' @ repo @ ''/'' @ rest \<and>
        x \<noteq> newline \<and> newline \<notin> set owner \<and> newline \<notin> set repo)"
    unfolding IsGithubShortPackageType_iff .
  have h: "\<not> IsHttpUrl example_collaborators ''string''"
    by (simp add: example_collaborators_def)
  from GetDownloadURLs_primitive [OF a h, of example_RegistryProvider 0] h
  show ?thesis by simp
qed

text \<open>
  Claim C6 as stated fails: \<open>see github.com/helm/charts/cassandra\<close> and
  \<open>githubXcom/a/b/c\<close> are no HTTP(S) URLs and are in neither short-form grammar, but
  the unanchored package pattern, whose dot matches any character, finds a match in
  both, so the provider is asked for a registry: the first call returns the URLs of
  that registry, the second dereferences the nil Registry of a provider that has none.
\<close>

theorem GetDownloadURLs_primitive_counterexample:
  "\<not> IsHttpUrl example_collaborators ''see github.com/helm/charts/cassandra'' \<and>
   \<not> ShortTypeGrammar ''see github.com/helm/charts/cassandra'' \<and>
   \<not> PackageShortTypeGrammar ''see github.com/helm/charts/cassandra'' \<and>
   GetDownloadURLs example_collaborators example_RegistryProvider
       ''see github.com/helm/charts/cassandra'' 0 =
     (Return [''https://github.com/kubernetes/application-dm-templates//cassandra/''], 1) \<and>
   \<not> IsHttpUrl example_collaborators ''githubXcom/a/b/c'' \<and>
   \<not> ShortTypeGrammar ''githubXcom/a/b/c'' \<and>
   \<not> PackageShortTypeGrammar ''githubXcom/a/b/c'' \<and>
   GetDownloadURLs example_collaborators nil_RegistryProvider ''githubXcom/a/b/c'' 0 =
     (Panic NilDereference, 1)"
proof -
  let ?t = "''see github.com/helm/charts/cassandra''"
  let ?u = "''githubXcom/a/b/c''"
  have h: "\<not> IsHttpUrl example_collaborators ?t" "\<not> IsHttpUrl example_collaborators ?u"
    by (simp_all add: example_collaborators_def)
  have g: "\<not> ShortTypeGrammar ?t" "\<not> PackageShortTypeGrammar ?t"
    "\<not> ShortTypeGrammar ?u" "\<not> PackageShortTypeGrammar ?u"
    by (simp_all add: ShortTypeGrammar_def PackageShortTypeGrammar_def)
  have a: "\<not> IsGithubShortType ?t" "\<not> IsGithubShortType ?u"
    by (simp_all add: IsGithubShortType_def TemplateRegistryMatcher_def newline_def)
  have b: "IsGithubShortPackageType ?t" "IsGithubShortPackageType ?u"
    by (simp_all add: IsGithubShortPackageType_def PackageRegistryMatcher_def newline_def)
  have m: "FindStringSubmatch PackageRegistryMatcher ?t =
      [''github.com/helm/charts/cassandra'', ''helm'', ''charts'', ''cassandra'']"
    "FindStringSubmatch PackageRegistryMatcher ?u = [''githubXcom/a/b/c'', ''a'', ''b'', ''c'']"
    by (simp_all add: PackageRegistryMatcher_def newline_def)
  have r: "GetDownloadURLs example_collaborators example_RegistryProvider ?t 0 =
     (Return [''https://github.com/kubernetes/application-dm-templates//cassandra/''], 1)"
  proof -
    have "GetDownloadURLs example_collaborators example_RegistryProvider ?t 0 =
        ShortTypeToPackageDownloadURLs example_collaborators example_RegistryProvider ?t 0"
      by (simp only: GetDownloadURLs_def a b if_False if_True)
    also have "\<dots> = (Return [''https://github.com/kubernetes/application-dm-templates//cassandra/''], 1)"
      unfolding ShortTypeToPackageDownloadURLs_def m Let_def
      by (simp add: example_collaborators_def example_RegistryProvider_def)
    finally show ?thesis .
  qed
  have r2: "GetDownloadURLs example_collaborators nil_RegistryProvider ?u 0 =
     (Panic NilDereference, 1)"
  proof -
    have "GetDownloadURLs example_collaborators nil_RegistryProvider ?u 0 =
        ShortTypeToPackageDownloadURLs example_collaborators nil_RegistryProvider ?u 0"
      by (simp only: GetDownloadURLs_def a b if_False if_True)
    also have "\<dots> = (Panic NilDereference, 1)"
      unfolding ShortTypeToPackageDownloadURLs_def m Let_def
      by (simp add: example_collaborators_def nil_RegistryProvider_def)
    finally show ?thesis .
  qed
  from h g r r2 show ?thesis by simp
qed

text \<open>
  Claim C10. Let the provider return a nil Registry and a nil error. On a template
  short form \<open>ShortTypeToDownloadURLs\<close> panics with the error
  \<open>cannot get github registry for\<close>. On a package short form
  \<open>ShortTypeToPackageDownloadURLs\<close> has no such test: it builds the type from the third
  group and, unless \<open>NewType\<close> fails, calls \<open>GetDownloadURLs\<close> on the nil Registry, a nil
  dereference.
\<close>
theorem nil_Registry_guard_only_on_template_path:
  assumes "rp_GetRegistryByShortURL rp t s = (Inr None, s1)"
  shows "(IsGithubShortType t \<longrightarrow>
            ShortTypeToDownloadURLs c rp t s =
              (Panic (PanicError (Error (''cannot get github registry for '' @ t))), s1)) \<and>
         (IsGithubShortPackageType t \<longrightarrow>
            length (FindStringSubmatch PackageRegistryMatcher t) = 4 \<and>
            ShortTypeToPackageDownloadURLs c rp t s =
              (case NewType c [] (FindStringSubmatch PackageRegistryMatcher t ! 3) [] of
                 Inl err \<Rightarrow> (Fail err, s1)
               | Inr tt \<Rightarrow> (Panic NilDereference, s1)))"
proof (intro conjI impI)
  assume "IsGithubShortType t"
  then have "length (FindStringSubmatch TemplateRegistryMatcher t) = 6"
    using Template_FindStringSubmatch by fastforce
  with assms show "ShortTypeToDownloadURLs c rp t s =
      (Panic (PanicError (Error (''cannot get github registry for '' @ t))), s1)"
    by (simp add: ShortTypeToDownloadURLs_def Let_def)
next
  assume "IsGithubShortPackageType t"
  then show "length (FindStringSubmatch PackageRegistryMatcher t) = 4"
    by (rule Package_FindStringSubmatch_length)
next
  assume "IsGithubShortPackageType t"
  then have "length (FindStringSubmatch PackageRegistryMatcher t) = 4"
    by (rule Package_FindStringSubmatch_length)
  with assms show "ShortTypeToPackageDownloadURLs c rp t s =
      (case NewType c [] (FindStringSubmatch PackageRegistryMatcher t ! 3) [] of
         Inl err \<Rightarrow> (Fail err, s1)
       | Inr tt \<Rightarrow> (Panic NilDereference, s1))"
    by (simp add: ShortTypeToPackageDownloadURLs_def Let_def split: sum.splits)
qed

theorem nil_Registry_guard_only_on_template_path_witness:
  "rp_GetRegistryByShortURL nil_RegistryProvider ''github.com/helm/charts/cassandra'' 0 =
     (Inr None, 1) \<and>
   IsGithubShortPackageType ''github.com/helm/charts/cassandra'' \<and>
   ShortTypeToPackageDownloadURLs example_collaborators nil_RegistryProvider
       ''github.com/helm/charts/cassandra'' 0 = (Panic NilDereference, 1) \<and>
   rp_GetRegistryByShortURL nil_RegistryProvider ''github.com/helm/charts/stable/redis:v1'' 0 =
     (Inr None, 1) \<and>
   IsGithubShortType ''github.com/helm/charts/stable/redis:v1'' \<and>
   ShortTypeToDownloadURLs example_collaborators nil_RegistryProvider
       ''github.com/helm/charts/stable/redis:v1'' 0 =
     (Panic (PanicError
        (Error ''cannot get github registry for github.com/helm/charts/stable/redis:v1'')), 1)"
proof -
  let ?p = "''github.com/helm/charts/cassandra''"
  let ?t = "''github.com/helm/charts/stable/redis:v1''"
  have n1: "rp_GetRegistryByShortURL nil_RegistryProvider ?p 0 = (Inr None, 1)"
    by (simp add: nil_RegistryProvider_def)
  have n2: "rp_GetRegistryByShortURL nil_RegistryProvider ?t 0 = (Inr None, 1)"
    by (simp add: nil_RegistryProvider_def)
  have hp: "IsGithubShortPackageType ?p"
    by (simp add: IsGithubShortPackageType_def PackageRegistryMatcher_def newline_def)
  have ht: "IsGithubShortType ?t"
    by (simp add: IsGithubShortType_def TemplateRegistryMatcher_def newline_def)
  have nt: "NewType example_collaborators [] x [] = Inr ([], x, [])" for x
    by (simp add: example_collaborators_def)
  from nil_Registry_guard_only_on_template_path [OF n1, of example_collaborators] hp
  have r1: "ShortTypeToPackageDownloadURLs example_collaborators nil_RegistryProvider ?p 0 =
      (Panic NilDereference, 1)"
    by (simp only: nt sum.case)
  from nil_Registry_guard_only_on_template_path [OF n2, of example_collaborators] ht
  have r2: "ShortTypeToDownloadURLs example_collaborators nil_RegistryProvider ?t 0 =
     (Panic (PanicError
        (Error ''cannot get github registry for github.com/helm/charts/stable/redis:v1'')), 1)"
    by simp
  from n1 n2 hp ht r1 r2 show ?thesis by simp
qed

section \<open>The registry factory\<close>

lemma fold_upd_True:
  "fold (\<lambda>format result. result(format := True)) xs f x \<longleftrightarrow> f x \<or> x \<in> set xs"
  by (induction xs arbitrary: f) auto

lemma ParseRegistryFormat_iff:
  "ParseRegistryFormat rf tag \<longleftrightarrow> tag \<in> set (strings_Split rf (CHR '';''))"
  by (simp add: ParseRegistryFormat_def fold_upd_True)

text \<open>
  Claim C2, as amended. \<open>GetGithubRegistry\<close> tests membership, not equality of tag sets.
  For a record of Github type whose format, split at the semicolons, contains both the
  unversioned and the one-level tag, it returns what the package-registry constructor
  returns, whatever other tags there are; otherwise, when the format contains both the
  versioned and the collection tag, it returns what the template-registry constructor
  returns; otherwise it fails with \<open>unknown registry format:\<close> followed by the format
  string. For a record of any other type it fails with \<open>unknown registry type:\<close>
  followed by the type.
\<close>

theorem GetGithubRegistry_dispatch:
  "GetGithubRegistry common newPackage newTemplate cr =
     (if Type cr \<noteq> GithubRegistryType common
      then Inl (Error (''unknown registry type: '' @ Type cr))
      else if UnversionedRegistry common \<in> set (strings_Split (Format cr) (CHR '';'')) \<and>
              OneLevelRegistry common \<in> set (strings_Split (Format cr) (CHR '';''))
      then newPackage (Name cr) (URL cr)
      else if VersionedRegistry common \<in> set (strings_Split (Format cr) (CHR '';'')) \<and>
              CollectionRegistry common \<in> set (strings_Split (Format cr) (CHR '';''))
      then newTemplate (Name cr) (URL cr)
      else Inl (Error (''unknown registry format: '' @ Format cr)))"
  by (simp add: GetGithubRegistry_def Let_def ParseRegistryFormat_iff)

theorem GetGithubRegistry_dispatch_witness:
  "GetGithubRegistry example_constants NewGithubPackageRegistry NewGithubTemplateRegistry
     \<lparr>Name = ''charts'', URL = ''github.com/acme/charts'', Type = ''github'',
      Format = ''unversioned;one-level''\<rparr> =
   Inr (Some \<lparr>GetRegistryName = ''charts'', GetRegistryShortURL = ''github.com/acme/charts'',
              Variant = PackageRegistry\<rparr>) \<and>
   GetGithubRegistry example_constants NewGithubPackageRegistry NewGithubTemplateRegistry
     \<lparr>Name = ''templates'', URL = ''github.com/kubernetes/application-dm-templates'',
      Type = ''github'', Format = ''collection;versioned''\<rparr> =
   Inr (Some \<lparr>GetRegistryName = ''templates'',
              GetRegistryShortURL = ''github.com/kubernetes/application-dm-templates'',
              Variant = TemplateRegistry\<rparr>) \<and>
   GetGithubRegistry example_constants NewGithubPackageRegistry NewGithubTemplateRegistry
     \<lparr>Name = ''broken'', URL = ''github.com/acme/broken'', Type = ''github'',
      Format = ''versioned''\<rparr> =
   Inl (Error ''unknown registry format: versioned'') \<and>
   GetGithubRegistry example_constants NewGithubPackageRegistry NewGithubTemplateRegistry
     \<lparr>Name = ''other'', URL = ''example.com/other'', Type = ''gcs'',
      Format = ''versioned;collection''\<rparr> =
   Inl (Error ''unknown registry type: gcs'')"
  using
    GetGithubRegistry_dispatch [of example_constants NewGithubPackageRegistry
      NewGithubTemplateRegistry "\<lparr>Name = ''charts'', URL = ''github.com/acme/charts'',
        Type = ''github'', Format = ''unversioned;one-level''\<rparr>"]
    GetGithubRegistry_dispatch [of example_constants NewGithubPackageRegistry
      NewGithubTemplateRegistry "\<lparr>Name = ''templates'',
        URL = ''github.com/kubernetes/application-dm-templates'',
        Type = ''github'', Format = ''collection;versioned''\<rparr>"]
    GetGithubRegistry_dispatch [of example_constants NewGithubPackageRegistry
      NewGithubTemplateRegistry "\<lparr>Name = ''broken'', URL = ''github.com/acme/broken'',
        Type = ''github'', Format = ''versioned''\<rparr>"]
    GetGithubRegistry_dispatch [of example_constants NewGithubPackageRegistry
      NewGithubTemplateRegistry "\<lparr>Name = ''other'', URL = ''example.com/other'',
        Type = ''gcs'', Format = ''versioned;collection''\<rparr>"]
  by (simp add: example_constants_def NewGithubPackageRegistry_def NewGithubTemplateRegistry_def)

text \<open>
  Claim C2 as stated fails: a format with the tags versioned, collection and a third
  tag is neither of the two sets, and the record is turned into a template registry.
\<close>

theorem GetGithubRegistry_exact_sets_counterexample:
  "{tag. ParseRegistryFormat ''versioned;collection;extra'' tag} \<noteq> {''unversioned'', ''one-level''} \<and>
   {tag. ParseRegistryFormat ''versioned;collection;extra'' tag} \<noteq> {''versioned'', ''collection''} \<and>
   GetGithubRegistry example_constants NewGithubPackageRegistry NewGithubTemplateRegistry
     \<lparr>Name = ''templates'', URL = ''github.com/kubernetes/application-dm-templates'',
      Type = ''github'', Format = ''versioned;collection;extra''\<rparr> =
   Inr (Some \<lparr>GetRegistryName = ''templates'',
              GetRegistryShortURL = ''github.com/kubernetes/application-dm-templates'',
              Variant = TemplateRegistry\<rparr>)"
proof -
  have e: "''extra'' \<in> {tag. ParseRegistryFormat ''versioned;collection;extra'' tag}"
    by (simp add: ParseRegistryFormat_def)
  have "''extra'' \<notin> {''unversioned'', ''one-level''}" by simp
  with e have a: "{tag. ParseRegistryFormat ''versioned;collection;extra'' tag} \<noteq>
      {''unversioned'', ''one-level''}" by metis
  have "''extra'' \<notin> {''versioned'', ''collection''}" by simp
  with e have b: "{tag. ParseRegistryFormat ''versioned;collection;extra'' tag} \<noteq>
      {''versioned'', ''collection''}" by metis
  have "GetGithubRegistry example_constants NewGithubPackageRegistry NewGithubTemplateRegistry
     \<lparr>Name = ''templates'', URL = ''github.com/kubernetes/application-dm-templates'',
      Type = ''github'', Format = ''versioned;collection;extra''\<rparr> =
   Inr (Some \<lparr>GetRegistryName = ''templates'',
              GetRegistryShortURL = ''github.com/kubernetes/application-dm-templates'',
              Variant = TemplateRegistry\<rparr>)"
    by (simp add: GetGithubRegistry_def ParseRegistryFormat_def example_constants_def
        NewGithubTemplateRegistry_def)
  with a b show ?thesis by simp
qed

section \<open>The registry provider\<close>

lemma GetRegistryByName_cases:
  "GetRegistryByName rp name st = (res, st') \<Longrightarrow>
     (\<exists>r. res = Return r \<and> registries st name = Some r \<and> st' = st) \<or>
     (registries st name = None \<and> issued st' = issued st @ [CallGet name] \<and>
        ((\<exists>r. res = Return r \<and> registries st' = (registries st)(GetRegistryName r \<mapsto> r)) \<or>
         ((\<exists>e. res = Fail e) \<or> (\<exists>p. res = Panic p)) \<and> registries st' = registries st))"
  unfolding GetRegistryByName_def
  by (auto split: option.splits prod.splits sum.splits)

lemma GetRegistryByShortURL_cases:
  "GetRegistryByShortURL rp order url st = (res, st') \<Longrightarrow>
     (\<exists>r. res = Return r \<and> findRegistryByShortURL (registries st) order url = Some r \<and> st' = st) \<or>
     (findRegistryByShortURL (registries st) order url = None \<and>
        issued st' = issued st @ [CallGetByURL url] \<and>
        ((\<exists>r. res = Return r \<and> registries st' = (registries st)(GetRegistryName r \<mapsto> r)) \<or>
         ((\<exists>e. res = Fail e) \<or> (\<exists>p. res = Panic p)) \<and> registries st' = registries st))"
  unfolding GetRegistryByShortURL_def
  by (auto split: option.splits prod.splits sum.splits)

text \<open>
  Claim C9. When \<open>GetRegistryByName\<close> or \<open>GetRegistryByShortURL\<close> returns an error (the
  metadata source failed or the factory failed), the cache is what it was before the
  call; the same holds when the call panics on a nil record or a nil Registry. A call
  that returns a Registry either found it in the cache and changed nothing, or missed
  and inserted the new Registry under the name that the Registry itself reports.
\<close>
theorem provider_error_leaves_cache_unchanged:
  "(GetRegistryByName rp name st = (Fail err, st') \<longrightarrow> registries st' = registries st) \<and>
   (GetRegistryByShortURL rp order url st = (Fail err, st') \<longrightarrow> registries st' = registries st) \<and>
   (GetRegistryByName rp name st = (Panic p, st') \<longrightarrow> registries st' = registries st) \<and>
   (GetRegistryByShortURL rp order url st = (Panic p, st') \<longrightarrow> registries st' = registries st) \<and>
   (GetRegistryByName rp name st = (Return r, st') \<longrightarrow>
      registries st name = Some r \<and> st' = st \<or>
      registries st name = None \<and> registries st' = (registries st)(GetRegistryName r \<mapsto> r)) \<and>
   (GetRegistryByShortURL rp order url st = (Return r, st') \<longrightarrow>
      findRegistryByShortURL (registries st) order url = Some r \<and> st' = st \<or>
      findRegistryByShortURL (registries st) order url = None \<and>
      registries st' = (registries st)(GetRegistryName r \<mapsto> r))"
proof (intro conjI impI)
  assume "GetRegistryByName rp name st = (Fail err, st')"
  from GetRegistryByName_cases [OF this] show "registries st' = registries st" by auto
next
  assume "GetRegistryByShortURL rp order url st = (Fail err, st')"
  from GetRegistryByShortURL_cases [OF this] show "registries st' = registries st" by auto
next
  assume "GetRegistryByName rp name st = (Panic p, st')"
  from GetRegistryByName_cases [OF this] show "registries st' = registries st" by auto
next
  assume "GetRegistryByShortURL rp order url st = (Panic p, st')"
  from GetRegistryByShortURL_cases [OF this] show "registries st' = registries st" by auto
next
  assume "GetRegistryByName rp name st = (Return r, st')"
  from GetRegistryByName_cases [OF this]
  show "registries st name = Some r \<and> st' = st \<or>
      registries st name = None \<and> registries st' = (registries st)(GetRegistryName r \<mapsto> r)"
    by auto
next
  assume "GetRegistryByShortURL rp order url st = (Return r, st')"
  from GetRegistryByShortURL_cases [OF this]
  show "findRegistryByShortURL (registries st) order url = Some r \<and> st' = st \<or>
      findRegistryByShortURL (registries st) order url = None \<and>
      registries st' = (registries st)(GetRegistryName r \<mapsto> r)"
    by auto
qed

lemmas example_defs =
  example_provider_def example_RegistryService_def example_records_def empty_state_def
  GetGithubRegistry_def ParseRegistryFormat_def example_constants_def
  NewGithubPackageRegistry_def NewGithubTemplateRegistry_def TrimURLScheme_def

lemma broken_run:
  "GetRegistryByName example_provider ''broken'' empty_state =
     (Fail (Error ''unknown registry format: versioned''),
      \<lparr>registries = Map.empty, world = (), issued = [CallGet ''broken'']\<rparr>)"
  by (simp add: GetRegistryByName_def example_defs)

lemma nobody_run:
  "GetRegistryByShortURL example_provider [] ''github.com/nobody/nothing'' empty_state =
     (Fail (Error ''Failed to find registry for url github.com/nobody/nothing''),
      \<lparr>registries = Map.empty, world = (), issued = [CallGetByURL ''github.com/nobody/nothing'']\<rparr>)"
  by (simp add: GetRegistryByShortURL_def findRegistryByShortURL_def example_defs)

lemma alias_run:
  "GetRegistryByName example_provider ''alias'' empty_state =
     (Return \<lparr>GetRegistryName = ''charts'', GetRegistryShortURL = ''github.com/acme/charts'',
              Variant = PackageRegistry\<rparr>,
      \<lparr>registries = [''charts'' \<mapsto> \<lparr>GetRegistryName = ''charts'',
           GetRegistryShortURL = ''github.com/acme/charts'', Variant = PackageRegistry\<rparr>],
       world = (), issued = [CallGet ''alias'']\<rparr>)"
  by (simp add: GetRegistryByName_def example_defs)

lemma charts_run:
  "GetRegistryByName example_provider ''charts'' empty_state =
     (Return \<lparr>GetRegistryName = ''charts'', GetRegistryShortURL = ''github.com/acme/charts'',
              Variant = PackageRegistry\<rparr>,
      \<lparr>registries = [''charts'' \<mapsto> \<lparr>GetRegistryName = ''charts'',
           GetRegistryShortURL = ''github.com/acme/charts'', Variant = PackageRegistry\<rparr>],
       world = (), issued = [CallGet ''charts'']\<rparr>)"
  by (simp add: GetRegistryByName_def example_defs)

theorem provider_error_leaves_cache_unchanged_witness:
  "GetRegistryByName example_provider ''broken'' empty_state =
     (Fail (Error ''unknown registry format: versioned''),
      \<lparr>registries = Map.empty, world = (), issued = [CallGet ''broken'']\<rparr>) \<and>
   registries \<lparr>registries = Map.empty, world = (), issued = [CallGet ''broken'']\<rparr> =
     registries empty_state \<and>
   GetRegistryByShortURL example_provider [] ''github.com/nobody/nothing'' empty_state =
     (Fail (Error ''Failed to find registry for url github.com/nobody/nothing''),
      \<lparr>registries = Map.empty, world = (),
       issued = [CallGetByURL ''github.com/nobody/nothing'']\<rparr>) \<and>
   registries \<lparr>registries = Map.empty, world = (),
       issued = [CallGetByURL ''github.com/nobody/nothing'']\<rparr> = registries empty_state \<and>
   fst (GetRegistryByName example_provider ''alias'' empty_state) =
     Return \<lparr>GetRegistryName = ''charts'', GetRegistryShortURL = ''github.com/acme/charts'',
              Variant = PackageRegistry\<rparr> \<and>
   registries (snd (GetRegistryByName example_provider ''alias'' empty_state)) =
     (registries empty_state)(''charts'' \<mapsto>
        \<lparr>GetRegistryName = ''charts'', GetRegistryShortURL = ''github.com/acme/charts'',
         Variant = PackageRegistry\<rparr>)"
proof -
  note t1 = provider_error_leaves_cache_unchanged [of example_provider "''broken''" empty_state
      "Error ''unknown registry format: versioned''"
      "\<lparr>registries = Map.empty, world = (), issued = [CallGet ''broken'']\<rparr>"]
  note t2 = provider_error_leaves_cache_unchanged [of example_provider _ empty_state
      "Error ''Failed to find registry for url github.com/nobody/nothing''"
      "\<lparr>registries = Map.empty, world = (),
        issued = [CallGetByURL ''github.com/nobody/nothing'']\<rparr>" "[]"
      "''github.com/nobody/nothing''"]
  note t3 = provider_error_leaves_cache_unchanged [of example_provider "''alias''" empty_state
      _ "snd (GetRegistryByName example_provider ''alias'' empty_state)" _ _ _
      "\<lparr>GetRegistryName = ''charts'', GetRegistryShortURL = ''github.com/acme/charts'',
              Variant = PackageRegistry\<rparr>"]
  have e: "registries empty_state ''alias'' = None" by (simp add: empty_state_def)
  from t1 broken_run have c1: "registries \<lparr>registries = Map.empty, world = (),
      issued = [CallGet ''broken'']\<rparr> = registries empty_state" by blast
  from t2 nobody_run have c2: "registries \<lparr>registries = Map.empty, world = (),
       issued = [CallGetByURL ''github.com/nobody/nothing'']\<rparr> = registries empty_state"
    by blast
  from alias_run have a: "GetRegistryByName example_provider ''alias'' empty_state =
     (Return \<lparr>GetRegistryName = ''charts'', GetRegistryShortURL = ''github.com/acme/charts'',
              Variant = PackageRegistry\<rparr>,
      snd (GetRegistryByName example_provider ''alias'' empty_state))" by simp
  from t3 a e have c3: "registries (snd (GetRegistryByName example_provider ''alias'' empty_state)) =
     (registries empty_state)(''charts'' \<mapsto>
        \<lparr>GetRegistryName = ''charts'', GetRegistryShortURL = ''github.com/acme/charts'',
         Variant = PackageRegistry\<rparr>)" by simp
  from alias_run have "fst (GetRegistryByName example_provider ''alias'' empty_state) =
     Return \<lparr>GetRegistryName = ''charts'', GetRegistryShortURL = ''github.com/acme/charts'',
              Variant = PackageRegistry\<rparr>" by simp
  with broken_run nobody_run c1 c2 c3 show ?thesis by blast
qed

text \<open>
  Claim C1, as amended. Let the first call \<open>GetRegistryByName(r)\<close> return a Registry,
  and let \<open>r\<close> have been cached before the call or be the name that the returned
  Registry reports. Then the second call returns the identical Registry and leaves the
  state as it is, so it calls neither the metadata source nor the factory, and the two
  calls together issue at most one \<open>Get\<close>.
\<close>
theorem GetRegistryByName_twice:
  assumes "GetRegistryByName rp name st = (Return r, st1)"
      and "registries st name \<noteq> None \<or> GetRegistryName r = name"
  shows "GetRegistryByName rp name st1 = (Return r, st1) \<and>
         (issued st1 = issued st \<or> issued st1 = issued st @ [CallGet name])"
proof -
  from GetRegistryByName_cases [OF assms(1)] assms(2)
  have "registries st1 name = Some r \<and>
        (issued st1 = issued st \<or> issued st1 = issued st @ [CallGet name])"
    by auto
  then show ?thesis by (simp add: GetRegistryByName_def)
qed

theorem GetRegistryByName_twice_witness:
  "GetRegistryByName example_provider ''charts'' empty_state =
     (Return \<lparr>GetRegistryName = ''charts'', GetRegistryShortURL = ''github.com/acme/charts'',
              Variant = PackageRegistry\<rparr>,
      \<lparr>registries = [''charts'' \<mapsto> \<lparr>GetRegistryName = ''charts'',
           GetRegistryShortURL = ''github.com/acme/charts'', Variant = PackageRegistry\<rparr>],
       world = (), issued = [CallGet ''charts'']\<rparr>) \<and>
   GetRegistryByName example_provider ''charts''
      \<lparr>registries = [''charts'' \<mapsto> \<lparr>GetRegistryName = ''charts'',
           GetRegistryShortURL = ''github.com/acme/charts'', Variant = PackageRegistry\<rparr>],
       world = (), issued = [CallGet ''charts'']\<rparr> =
     (Return \<lparr>GetRegistryName = ''charts'', GetRegistryShortURL = ''github.com/acme/charts'',
              Variant = PackageRegistry\<rparr>,
      \<lparr>registries = [''charts'' \<mapsto> \<lparr>GetRegistryName = ''charts'',
           GetRegistryShortURL = ''github.com/acme/charts'', Variant = PackageRegistry\<rparr>],
       world = (), issued = [CallGet ''charts'']\<rparr>)"
proof -
  have n: "registries empty_state ''charts'' \<noteq> None \<or>
      GetRegistryName \<lparr>GetRegistryName = ''charts'',
        GetRegistryShortURL = ''github.com/acme/charts'', Variant = PackageRegistry\<rparr> = ''charts''"
    by simp
  from GetRegistryByName_twice [OF charts_run n] charts_run show ?thesis by blast
qed

text \<open>
  Claim C1 as stated fails when the Registry reports another name than the one looked
  up: the entry is cached under the reported name, the second look-up misses again, and
  the metadata source is asked twice.
\<close>

theorem GetRegistryByName_twice_counterexample:
  "issued (snd (GetRegistryByName example_provider ''alias''
     (snd (GetRegistryByName example_provider ''alias'' empty_state)))) =
   [CallGet ''alias'', CallGet ''alias'']"
  by (simp add: alias_run) (simp add: GetRegistryByName_def example_defs)

lemma rangeRegistries_Some:
  "rangeRegistries trimmed regs ks = Some r \<Longrightarrow>
     r \<in> ran regs \<and> prefix (TrimURLScheme (GetRegistryShortURL r)) trimmed"
  by (induction ks) (auto simp: strings_HasPrefix_def ran_def split: option.splits if_splits)

lemma rangeRegistries_finds:
  "regs k = Some r \<Longrightarrow> k \<in> set ks \<Longrightarrow> prefix (TrimURLScheme (GetRegistryShortURL r)) trimmed \<Longrightarrow>
     rangeRegistries trimmed regs ks \<noteq> None"
  by (induction ks) (auto simp: strings_HasPrefix_def split: option.splits)

lemma probes_trimmed:
  "TrimURLScheme ''https://github.com/acme/charts'' = ''github.com/acme/charts''"
  "TrimURLScheme ''http://github.com/acme/charts'' = ''github.com/acme/charts''"
  by (simp_all add: TrimURLScheme_def)

text \<open>
  Claim C7, as amended. Let a Registry \<open>r\<close> be cached whose short URL, without scheme, is
  a prefix of \<open>github.com/acme/charts\<close>. Then \<open>GetRegistryByShortURL\<close> returns, for the
  probe with the https scheme and for the probe with the http scheme, a cached Registry
  whose short URL without scheme is a prefix of \<open>github.com/acme/charts\<close>, and asks the
  metadata source nothing. Both calls return \<open>r\<close> when \<open>r\<close> is the only such entry of the
  cache, and they return the same entry when the two loops visit the map in the same
  order. With several such entries, which one is returned depends on the order in which
  the loop visits the map.
\<close>
theorem GetRegistryByShortURL_scheme_insensitive:
  assumes "registries st k = Some r"
      and "prefix (TrimURLScheme (GetRegistryShortURL r)) ''github.com/acme/charts''"
      and "set order1 = dom (registries st)" and "set order2 = dom (registries st)"
  shows "\<exists>r1 r2.
     GetRegistryByShortURL rp order1 ''https://github.com/acme/charts'' st = (Return r1, st) \<and>
     GetRegistryByShortURL rp order2 ''http://github.com/acme/charts'' st = (Return r2, st) \<and>
     r1 \<in> ran (registries st) \<and> r2 \<in> ran (registries st) \<and>
     prefix (TrimURLScheme (GetRegistryShortURL r1)) ''github.com/acme/charts'' \<and>
     prefix (TrimURLScheme (GetRegistryShortURL r2)) ''github.com/acme/charts'' \<and>
     (order1 = order2 \<longrightarrow> r1 = r2) \<and>
     ((\<forall>r' \<in> ran (registries st).
          prefix (TrimURLScheme (GetRegistryShortURL r')) ''github.com/acme/charts'' \<longrightarrow> r' = r)
        \<longrightarrow> r1 = r \<and> r2 = r)"
proof -
  from assms have k: "k \<in> set order1" "k \<in> set order2" by auto
  from rangeRegistries_finds [of "registries st" k r order1, OF assms(1) k(1) assms(2)]
  obtain r1 where
    f1: "rangeRegistries ''github.com/acme/charts'' (registries st) order1 = Some r1" by auto
  from rangeRegistries_finds [of "registries st" k r order2, OF assms(1) k(2) assms(2)]
  obtain r2 where
    f2: "rangeRegistries ''github.com/acme/charts'' (registries st) order2 = Some r2" by auto
  from f1 have g1: "GetRegistryByShortURL rp order1 ''https://github.com/acme/charts'' st =
      (Return r1, st)"
    by (simp add: GetRegistryByShortURL_def findRegistryByShortURL_def probes_trimmed)
  from f2 have g2: "GetRegistryByShortURL rp order2 ''http://github.com/acme/charts'' st =
      (Return r2, st)"
    by (simp add: GetRegistryByShortURL_def findRegistryByShortURL_def probes_trimmed)
  from f1 f2 have e: "order1 = order2 \<longrightarrow> r1 = r2" by auto
  from rangeRegistries_Some [OF f1] rangeRegistries_Some [OF f2] g1 g2 e
  show ?thesis by blast
qed

lemma two_matching_state_eq:
  "two_matching_state =
     \<lparr>registries = [''charts'' \<mapsto> \<lparr>GetRegistryName = ''charts'',
           GetRegistryShortURL = ''github.com/acme/charts'', Variant = PackageRegistry\<rparr>,
         ''ch'' \<mapsto> \<lparr>GetRegistryName = ''ch'',
           GetRegistryShortURL = ''github.com/acme/ch'', Variant = PackageRegistry\<rparr>],
       world = (), issued = [CallGet ''charts'', CallGet ''ch'']\<rparr>"
  unfolding two_matching_state_def
  by (simp add: charts_run) (simp add: GetRegistryByName_def example_defs)

text \<open>
  Claim C7 as stated fails with two cached entries whose short URLs are both prefixes
  of the probe: visiting \<open>charts\<close> first returns \<open>charts\<close>, visiting \<open>ch\<close> first
  returns \<open>ch\<close>.
\<close>

theorem GetRegistryByShortURL_same_entry_counterexample:
  "registries two_matching_state ''charts'' =
     Some \<lparr>GetRegistryName = ''charts'', GetRegistryShortURL = ''github.com/acme/charts'',
           Variant = PackageRegistry\<rparr> \<and>
   fst (GetRegistryByShortURL example_provider [''charts'', ''ch'']
          ''https://github.com/acme/charts'' two_matching_state) =
     Return \<lparr>GetRegistryName = ''charts'', GetRegistryShortURL = ''github.com/acme/charts'',
             Variant = PackageRegistry\<rparr> \<and>
   fst (GetRegistryByShortURL example_provider [''ch'', ''charts'']
          ''http://github.com/acme/charts'' two_matching_state) =
     Return \<lparr>GetRegistryName = ''ch'', GetRegistryShortURL = ''github.com/acme/ch'',
             Variant = PackageRegistry\<rparr>"
  by (simp add: two_matching_state_eq GetRegistryByShortURL_def findRegistryByShortURL_def
      TrimURLScheme_def strings_HasPrefix_def)

theorem GetRegistryByShortURL_scheme_insensitive_witness:
  "GetRegistryByShortURL example_provider [''charts''] ''https://github.com/acme/charts''
      \<lparr>registries = [''charts'' \<mapsto> \<lparr>GetRegistryName = ''charts'',
           GetRegistryShortURL = ''github.com/acme/charts'', Variant = PackageRegistry\<rparr>],
       world = (), issued = [CallGet ''charts'']\<rparr> =
     (Return \<lparr>GetRegistryName = ''charts'', GetRegistryShortURL = ''github.com/acme/charts'',
              Variant = PackageRegistry\<rparr>,
      \<lparr>registries = [''charts'' \<mapsto> \<lparr>GetRegistryName = ''charts'',
           GetRegistryShortURL = ''github.com/acme/charts'', Variant = PackageRegistry\<rparr>],
       world = (), issued = [CallGet ''charts'']\<rparr>) \<and>
   GetRegistryByShortURL example_provider [''charts''] ''http://github.com/acme/charts''
      \<lparr>registries = [''charts'' \<mapsto> \<lparr>GetRegistryName = ''charts'',
           GetRegistryShortURL = ''github.com/acme/charts'', Variant = PackageRegistry\<rparr>],
       world = (), issued = [CallGet ''charts'']\<rparr> =
     (Return \<lparr>GetRegistryName = ''charts'', GetRegistryShortURL = ''github.com/acme/charts'',
              Variant = PackageRegistry\<rparr>,
      \<lparr>registries = [''charts'' \<mapsto> \<lparr>GetRegistryName = ''charts'',
           GetRegistryShortURL = ''github.com/acme/charts'', Variant = PackageRegistry\<rparr>],
       world = (), issued = [CallGet ''charts'']\<rparr>)"
proof -
  let ?r = "\<lparr>GetRegistryName = ''charts'', GetRegistryShortURL = ''github.com/acme/charts'',
              Variant = PackageRegistry\<rparr>"
  let ?st = "\<lparr>registries = [''charts'' \<mapsto> ?r], world = (), issued = [CallGet ''charts'']\<rparr>"
  have c: "registries ?st ''charts'' = Some ?r" by simp
  have p: "prefix (TrimURLScheme (GetRegistryShortURL ?r)) ''github.com/acme/charts''"
    by (simp add: TrimURLScheme_def)
  have o: "set [''charts''] = dom (registries ?st)" by simp
  have u: "\<forall>r' \<in> ran (registries ?st).
          prefix (TrimURLScheme (GetRegistryShortURL r')) ''github.com/acme/charts'' \<longrightarrow> r' = ?r"
    by simp
  from GetRegistryByShortURL_scheme_insensitive [OF c p o o, of example_provider] u
  show ?thesis by blast
qed

end
